theory Spec2Isabelle
  imports Main
begin

section \<open>Python values and the operations the program applies to them\<close>

text \<open>
  The program (\<^verbatim>\<open>src/app/dead-ends.py\<close>) works on the decoded JSON that the Notion
  client and the generation endpoint return: dictionaries, lists, strings, numbers,
  booleans and \<^verbatim>\<open>None\<close>. A dictionary is an association list in insertion order
  (keys are strings and pairwise distinct, as a JSON decoder produces them); lookups read
  the first binding of a key.

  A \<open>string\<close> stands for a Python \<^verbatim>\<open>str\<close> whose characters are code points below 256;
  \<open>lower\<close> and \<open>strip\<close> are Python's \<^verbatim>\<open>str.lower\<close> and \<^verbatim>\<open>str.strip\<close> on that range.
  Numbers are integers: the program never computes with a number, it only tests values for
  truth and equality with string literals.
\<close>

datatype json =
    JNull
  | JBool bool
  | JNum int
  | JStr string
  | JList "json list"
  | JDict "(string \<times> json) list"

text \<open>Every exception the program can meet is a value; \<open>Inl\<close> carries it.\<close>

datatype error =
    AttributeError
  | KeyError
  | TypeError
  | IndexError
  | ConnectionError
  | JSONDecodeError
  | EOFError
  | APIResponseError
  | SystemExit

definition ebind :: "error + 'a \<Rightarrow> ('a \<Rightarrow> error + 'b) \<Rightarrow> error + 'b" where
  "ebind m f = (case m of Inl e \<Rightarrow> Inl e | Inr x \<Rightarrow> f x)"

text \<open>Truth value of an object (\<^verbatim>\<open>if x:\<close>, \<^verbatim>\<open>not x\<close>).\<close>

fun py_truthy :: "json \<Rightarrow> bool" where
  "py_truthy JNull = False"
| "py_truthy (JBool b) = b"
| "py_truthy (JNum n) = (n \<noteq> 0)"
| "py_truthy (JStr s) = (s \<noteq> [])"
| "py_truthy (JList xs) = (xs \<noteq> [])"
| "py_truthy (JDict d) = (d \<noteq> [])"

text \<open>Lists and dictionaries are unhashable: using one as a dictionary key raises.\<close>

fun py_hashable :: "json \<Rightarrow> bool" where
  "py_hashable (JList xs) = False"
| "py_hashable (JDict d) = False"
| "py_hashable v = True"

text \<open>
  \<^verbatim>\<open>d[k]\<close> and \<^verbatim>\<open>d.get(k, default)\<close> on a dictionary whose keys are strings: a hashable
  key that is not a string is simply absent.
\<close>

fun dict_lookup :: "(string \<times> json) list \<Rightarrow> json \<Rightarrow> json option" where
  "dict_lookup d (JStr k) = map_of d k"
| "dict_lookup d v = None"

text \<open>\<^verbatim>\<open>obj.get(key, default)\<close>: only a dictionary has the method.\<close>

fun py_get :: "json \<Rightarrow> json \<Rightarrow> json \<Rightarrow> error + json" where
  "py_get (JDict d) key dflt =
     (if py_hashable key
      then Inr (case dict_lookup d key of Some v \<Rightarrow> v | None \<Rightarrow> dflt)
      else Inl TypeError)"
| "py_get obj key dflt = Inl AttributeError"

text \<open>An index into a sequence: an integer (a boolean is an integer in Python).\<close>

fun py_index :: "json \<Rightarrow> int option" where
  "py_index (JNum i) = Some i"
| "py_index (JBool b) = Some (if b then 1 else 0)"
| "py_index v = None"

text \<open>
  \<^verbatim>\<open>xs[i]\<close> on a sequence of length \<open>n\<close>: the positions \<open>0\<close> to \<open>n - 1\<close> from the
  front, and \<open>-1\<close> down to \<open>-n\<close> from the back; any other position raises.
\<close>

definition seq_item :: "'a list \<Rightarrow> int \<Rightarrow> error + 'a" where
  "seq_item xs i =
     (if 0 \<le> i \<and> i < int (length xs) then Inr (xs ! nat i)
      else if i < 0 \<and> - int (length xs) \<le> i then Inr (xs ! nat (int (length xs) + i))
      else Inl IndexError)"

text \<open>\<^verbatim>\<open>obj[key]\<close>.\<close>

fun py_getitem :: "json \<Rightarrow> json \<Rightarrow> error + json" where
  "py_getitem (JDict d) key =
     (if py_hashable key
      then (case dict_lookup d key of Some v \<Rightarrow> Inr v | None \<Rightarrow> Inl KeyError)
      else Inl TypeError)"
| "py_getitem (JList xs) key =
     (case py_index key of Some i \<Rightarrow> seq_item xs i | None \<Rightarrow> Inl TypeError)"
| "py_getitem (JStr s) key =
     (case py_index key of
        Some i \<Rightarrow> ebind (seq_item s i) (\<lambda>c. Inr (JStr [c]))
      | None \<Rightarrow> Inl TypeError)"
| "py_getitem obj key = Inl TypeError"

text \<open>\<^verbatim>\<open>obj.values()\<close>, in insertion order.\<close>

fun py_values :: "json \<Rightarrow> error + json list" where
  "py_values (JDict d) = Inr (map snd d)"
| "py_values obj = Inl AttributeError"

text \<open>
  The elements a \<^verbatim>\<open>for\<close> loop visits: the items of a list, the keys of a dictionary,
  the characters of a string; anything else is not iterable.
\<close>

fun py_iter :: "json \<Rightarrow> error + json list" where
  "py_iter (JList xs) = Inr xs"
| "py_iter (JDict d) = Inr (map (\<lambda>kv. JStr (fst kv)) d)"
| "py_iter (JStr s) = Inr (map (\<lambda>c. JStr [c]) s)"
| "py_iter obj = Inl TypeError"

text \<open>\<^verbatim>\<open>sub in s\<close> on strings: \<open>sub\<close> occurs in \<open>s\<close> as a contiguous run.\<close>

fun is_substring :: "string \<Rightarrow> string \<Rightarrow> bool" where
  "is_substring sub [] = (sub = [])"
| "is_substring sub (c # cs) = (take (length sub) (c # cs) = sub \<or> is_substring sub cs)"

text \<open>
  \<^verbatim>\<open>"lit" in obj\<close> for a string literal: key membership in a dictionary, element
  membership in a list, substring test in a string; anything else is not a container.
\<close>

fun py_contains :: "string \<Rightarrow> json \<Rightarrow> error + bool" where
  "py_contains lit (JDict d) = Inr (map_of d lit \<noteq> None)"
| "py_contains lit (JList xs) = Inr (JStr lit \<in> set xs)"
| "py_contains lit (JStr s) = Inr (is_substring lit s)"
| "py_contains lit obj = Inl TypeError"

subsection \<open>Strings\<close>

text \<open>
  \<^verbatim>\<open>str.isspace\<close> on a character below code point 256: tab to carriage return, the
  four information separators, space, next-line and no-break space.
\<close>

definition is_space :: "char \<Rightarrow> bool" where
  "is_space c =
     (let n = (of_char c :: nat)
      in (9 \<le> n \<and> n \<le> 13) \<or> (28 \<le> n \<and> n \<le> 32) \<or> n = 133 \<or> n = 160)"

definition strip :: "string \<Rightarrow> string" where
  "strip s = rev (dropWhile is_space (rev (dropWhile is_space s)))"

text \<open>
  \<^verbatim>\<open>str.lower\<close> on a character below code point 256: the letters A to Z and the
  Latin-1 capitals (192 to 222 except the multiplication sign 215) move up by 32.
\<close>

definition lower_char :: "char \<Rightarrow> char" where
  "lower_char c =
     (let n = (of_char c :: nat)
      in if (65 \<le> n \<and> n \<le> 90) \<or> (192 \<le> n \<and> n \<le> 222 \<and> n \<noteq> 215)
         then char_of (n + 32) else c)"

definition lower :: "string \<Rightarrow> string" where
  "lower s = map lower_char s"

text \<open>The methods exist on strings only.\<close>

fun py_strip :: "json \<Rightarrow> error + string" where
  "py_strip (JStr s) = Inr (strip s)"
| "py_strip obj = Inl AttributeError"

fun py_lower :: "json \<Rightarrow> error + string" where
  "py_lower (JStr s) = Inr (lower s)"
| "py_lower obj = Inl AttributeError"

text \<open>\<^verbatim>\<open>sep.join(parts)\<close> on a list of strings.\<close>

fun join :: "string \<Rightarrow> string list \<Rightarrow> string" where
  "join sep [] = []"
| "join sep [x] = x"
| "join sep (x # y # ys) = x @ sep @ join sep (y # ys)"

subsection \<open>Loops\<close>

text \<open>
  A \<^verbatim>\<open>for\<close> loop whose body may \<^verbatim>\<open>return\<close>: the body yields \<open>Some r\<close> to return
  \<open>r\<close> from the enclosing function, \<open>None\<close> to go on with the next element, or raises.
  The loop yields \<open>None\<close> when it runs to its end.
\<close>

fun for_loop :: "('a \<Rightarrow> error + 'r option) \<Rightarrow> 'a list \<Rightarrow> error + 'r option" where
  "for_loop body [] = Inr None"
| "for_loop body (x # xs) =
     (case body x of
        Inl e \<Rightarrow> Inl e
      | Inr (Some r) \<Rightarrow> Inr (Some r)
      | Inr None \<Rightarrow> for_loop body xs)"

text \<open>A \<^verbatim>\<open>for\<close> loop that updates a local variable: the body maps the old value to the new.\<close>

fun for_acc :: "('s \<Rightarrow> 'a \<Rightarrow> error + 's) \<Rightarrow> 's \<Rightarrow> 'a list \<Rightarrow> error + 's" where
  "for_acc body s [] = Inr s"
| "for_acc body s (x # xs) =
     (case body s x of Inl e \<Rightarrow> Inl e | Inr s' \<Rightarrow> for_acc body s' xs)"

section \<open>Title resolution\<close>

text \<open>
  \<^verbatim>\<open>
  def extract_title(page):
      try:
          for prop in page.get("properties", {}).values():
              if prop.get("type") == "title":
                  title_list = prop.get("title", [])
                  if title_list:
                      return title_list[0]["text"]["content"]
                  else:
                      return ""
      except Exception:
          pass
      return "[Untitled]"
  \<close>
  \<open>title_of_prop\<close> is the body of the loop, \<open>extract_title_try\<close> the \<^verbatim>\<open>try\<close> block:
  it returns a value, runs to its end (\<open>None\<close>) or raises.
\<close>

definition title_of_prop :: "json \<Rightarrow> error + json option" where
  "title_of_prop prop =
     ebind (py_get prop (JStr ''type'') JNull) (\<lambda>ty.
       if ty = JStr ''title''
       then ebind (py_get prop (JStr ''title'') (JList [])) (\<lambda>title_list.
              if py_truthy title_list
              then ebind (py_getitem title_list (JNum 0)) (\<lambda>span.
                   ebind (py_getitem span (JStr ''text'')) (\<lambda>txt.
                   ebind (py_getitem txt (JStr ''content'')) (\<lambda>content.
                     Inr (Some content))))
              else Inr (Some (JStr '''')))
       else Inr None)"

definition extract_title_try :: "json \<Rightarrow> error + json option" where
  "extract_title_try page =
     ebind (py_get page (JStr ''properties'') (JDict [])) (\<lambda>props.
     ebind (py_values props) (\<lambda>vals.
       for_loop title_of_prop vals))"

definition extract_title :: "json \<Rightarrow> error + json" where
  "extract_title page =
     (case extract_title_try page of
        Inr (Some title) \<Rightarrow> Inr title
      | Inr None \<Rightarrow> Inr (JStr ''[Untitled]'')
      | Inl e \<Rightarrow> Inr (JStr ''[Untitled]''))"

text \<open>
  \<^verbatim>\<open>
  def is_untitled(page):
      title = extract_title(page)
      return title.lower() in ["", "untitled", "[untitled]"]
  \<close>
\<close>

definition is_untitled :: "json \<Rightarrow> error + bool" where
  "is_untitled page =
     ebind (extract_title page) (\<lambda>title.
     ebind (py_lower title) (\<lambda>low.
       Inr (low \<in> set ['''', ''untitled'', ''[untitled]''])))"

section \<open>The remote workspace\<close>

text \<open>
  The Notion client (\<^verbatim>\<open>notion = Client(auth=token)\<close>) is an external service. Each of
  its calls either raises or returns the decoded response; the model takes the answers as
  functions of the request: \<open>search\<close> of the start cursor, \<open>children_list\<close> of the page
  identifier, \<open>blocks_delete\<close> of the identifier, \<open>pages_update\<close> of the identifier and the
  properties payload.
\<close>

record notion_client =
  search :: "json \<Rightarrow> error + json"
  children_list :: "json \<Rightarrow> error + json"
  blocks_delete :: "json \<Rightarrow> error + json"
  pages_update :: "json \<Rightarrow> json \<Rightarrow> error + json"

section \<open>The stream of untitled pages\<close>

text \<open>
  \<^verbatim>\<open>
  def stream_untitled_pages():
      cursor = None
      while True:
          response = notion.search(query="", filter={...}, start_cursor=cursor)
          for page in response["results"]:
              if is_untitled(page):
                  yield page
          cursor = response.get("next_cursor")
          if not cursor:
              break
  \<close>
  A run of the generator is the list of pages it yields together with the way it ends:
  \<open>None\<close> when it finishes, \<open>Some e\<close> when it raises \<open>e\<close> after the pages yielded so
  far. \<open>yield_untitled\<close> is the inner loop. The outer loop may run forever; then
  \<open>stream_from\<close> is \<open>None\<close>.
\<close>

fun yield_untitled :: "json list \<Rightarrow> json list \<times> error option" where
  "yield_untitled [] = ([], None)"
| "yield_untitled (page # pages) =
     (case is_untitled page of
        Inl e \<Rightarrow> ([], Some e)
      | Inr u \<Rightarrow>
          (case yield_untitled pages of
             (ys, r) \<Rightarrow> ((if u then [page] else []) @ ys, r)))"

partial_function (option) stream_from ::
  "notion_client \<Rightarrow> json \<Rightarrow> (json list \<times> error option) option" where
  "stream_from notion cursor =
     (case search notion cursor of
        Inl e \<Rightarrow> Some ([], Some e)
      | Inr response \<Rightarrow>
          (case ebind (py_getitem response (JStr ''results'')) py_iter of
             Inl e \<Rightarrow> Some ([], Some e)
           | Inr pages \<Rightarrow>
               (case yield_untitled pages of
                  (ys, Some e) \<Rightarrow> Some (ys, Some e)
                | (ys, None) \<Rightarrow>
                    (case py_get response (JStr ''next_cursor'') JNull of
                       Inl e \<Rightarrow> Some (ys, Some e)
                     | Inr cursor' \<Rightarrow>
                         if \<not> py_truthy cursor' then Some (ys, None)
                         else Option.bind (stream_from notion cursor')
                                (\<lambda>rest. Some (ys @ fst rest, snd rest))))))"

definition stream_untitled_pages :: "notion_client \<Rightarrow> (json list \<times> error option) option" where
  "stream_untitled_pages notion = stream_from notion JNull"

section \<open>Content text extraction\<close>

text \<open>
  \<^verbatim>\<open>
  def get_page_content_text(page_id):
      blocks = notion.blocks.children.list(page_id)["results"]
      text_content = []
      for block in blocks:
          block_type = block["type"]
          if block_type in ["paragraph", "heading_1", "heading_2", "heading_3"]:
              rich_text = block[block_type].get("rich_text", [])
              for t in rich_text:
                  if t["type"] == "text":
                      text_content.append(t["text"]["content"])
      return " ".join(text_content).strip()
  \<close>
\<close>

definition text_block_types :: "string list" where
  "text_block_types = [''paragraph'', ''heading_1'', ''heading_2'', ''heading_3'']"

definition append_span_text :: "json list \<Rightarrow> json \<Rightarrow> error + json list" where
  "append_span_text text_content t =
     ebind (py_getitem t (JStr ''type'')) (\<lambda>ty.
       if ty = JStr ''text''
       then ebind (py_getitem t (JStr ''text'')) (\<lambda>txt.
            ebind (py_getitem txt (JStr ''content'')) (\<lambda>content.
              Inr (text_content @ [content])))
       else Inr text_content)"

definition append_block_text :: "json list \<Rightarrow> json \<Rightarrow> error + json list" where
  "append_block_text text_content block =
     ebind (py_getitem block (JStr ''type'')) (\<lambda>block_type.
       if block_type \<in> JStr ` set text_block_types
       then ebind (py_getitem block block_type) (\<lambda>block_data.
            ebind (py_get block_data (JStr ''rich_text'') (JList [])) (\<lambda>rich_text.
            ebind (py_iter rich_text) (\<lambda>spans.
              for_acc append_span_text text_content spans)))
       else Inr text_content)"

text \<open>\<^verbatim>\<open>" ".join(parts)\<close> raises unless every part is a string.\<close>

fun str_parts :: "json list \<Rightarrow> error + string list" where
  "str_parts [] = Inr []"
| "str_parts (JStr s # vs) = ebind (str_parts vs) (\<lambda>ss. Inr (s # ss))"
| "str_parts (v # vs) = Inl TypeError"

definition content_text :: "json list \<Rightarrow> error + string" where
  "content_text blocks =
     ebind (for_acc append_block_text [] blocks) (\<lambda>text_content.
     ebind (str_parts text_content) (\<lambda>parts.
       Inr (strip (join '' '' parts))))"

definition fetch_blocks :: "notion_client \<Rightarrow> json \<Rightarrow> error + json list" where
  "fetch_blocks notion page_id =
     ebind (children_list notion page_id) (\<lambda>response.
     ebind (py_getitem response (JStr ''results'')) (\<lambda>blocks.
       py_iter blocks))"

definition get_page_content_text :: "notion_client \<Rightarrow> json \<Rightarrow> error + string" where
  "get_page_content_text notion page_id =
     ebind (fetch_blocks notion page_id) content_text"

section \<open>Emptiness check\<close>

text \<open>
  \<^verbatim>\<open>
  def is_empty(page_id):
      blocks = notion.blocks.children.list(page_id)["results"]
      for block in blocks:
          block_type = block.get("type")
          block_data = block.get(block_type, {})
          if "rich_text" in block_data:
              for rt in block_data["rich_text"]:
                  if rt.get("type") == "text":
                      content = rt["text"]["content"].strip()
                      if content:
                          return False
          elif block_type in ["to_do", "callout", "toggle", "quote", "code"]:
              if "rich_text" in block_data:
                  for rt in block_data["rich_text"]:
                      if rt.get("type") == "text" and rt["text"]["content"].strip():
                          return False
          elif block_type in ["image", "video", "file", "embed", "equation",
              "pdf", "bookmark", "table", "table_row", "synced_block", "link_to_page"]:
              return False
          elif block_data:
              return False
      return True
  \<close>
  A loop body gives \<open>Some False\<close> where the source returns \<^verbatim>\<open>False\<close> and \<open>None\<close> where
  it goes on to the next element. \<open>span_nonblank\<close> is the body of the first loop over
  spans, \<open>span_nonblank_dup\<close> that of the second.
\<close>

definition todo_block_types :: "string list" where
  "todo_block_types = [''to_do'', ''callout'', ''toggle'', ''quote'', ''code'']"

definition visible_block_types :: "string list" where
  "visible_block_types =
     [''image'', ''video'', ''file'', ''embed'', ''equation'', ''pdf'', ''bookmark'',
      ''table'', ''table_row'', ''synced_block'', ''link_to_page'']"

definition span_nonblank :: "json \<Rightarrow> error + bool option" where
  "span_nonblank rt =
     ebind (py_get rt (JStr ''type'') JNull) (\<lambda>ty.
       if ty = JStr ''text''
       then ebind (py_getitem rt (JStr ''text'')) (\<lambda>txt.
            ebind (py_getitem txt (JStr ''content'')) (\<lambda>c.
            ebind (py_strip c) (\<lambda>content.
              if content \<noteq> [] then Inr (Some False) else Inr None)))
       else Inr None)"

definition span_nonblank_dup :: "json \<Rightarrow> error + bool option" where
  "span_nonblank_dup rt =
     ebind (py_get rt (JStr ''type'') JNull) (\<lambda>ty.
       if ty = JStr ''text''
       then ebind (py_getitem rt (JStr ''text'')) (\<lambda>txt.
            ebind (py_getitem txt (JStr ''content'')) (\<lambda>c.
            ebind (py_strip c) (\<lambda>stripped.
              if stripped \<noteq> [] then Inr (Some False) else Inr None)))
       else Inr None)"

definition block_check :: "json \<Rightarrow> error + bool option" where
  "block_check block =
     ebind (py_get block (JStr ''type'') JNull) (\<lambda>block_type.
     ebind (py_get block block_type (JDict [])) (\<lambda>block_data.
     ebind (py_contains ''rich_text'' block_data) (\<lambda>has_rich_text.
       if has_rich_text
       then ebind (py_getitem block_data (JStr ''rich_text'')) (\<lambda>rich_text.
            ebind (py_iter rich_text) (\<lambda>spans.
              for_loop span_nonblank spans))
       else if block_type \<in> JStr ` set todo_block_types
       then ebind (py_contains ''rich_text'' block_data) (\<lambda>has_rich_text'.
              if has_rich_text'
              then ebind (py_getitem block_data (JStr ''rich_text'')) (\<lambda>rich_text.
                   ebind (py_iter rich_text) (\<lambda>spans.
                     for_loop span_nonblank_dup spans))
              else Inr None)
       else if block_type \<in> JStr ` set visible_block_types
       then Inr (Some False)
       else if py_truthy block_data
       then Inr (Some False)
       else Inr None)))"

definition empty_scan :: "json list \<Rightarrow> error + bool" where
  "empty_scan blocks =
     ebind (for_loop block_check blocks) (\<lambda>r.
       case r of Some b \<Rightarrow> Inr b | None \<Rightarrow> Inr True)"

definition is_empty :: "notion_client \<Rightarrow> json \<Rightarrow> error + bool" where
  "is_empty notion page_id = ebind (fetch_blocks notion page_id) empty_scan"

section \<open>Effects: the console, the generation endpoint, the mutating calls\<close>

text \<open>
  What a run does to the outside is a trace of events in the order they happen; the lines
  the user will type are consumed from \<open>stdin\<close>. A computation takes the world and gives
  its outcome (a value, or the exception it raises) with the world after it.
\<close>

datatype notice =
    EmptyNotice nat string
  | PageDeleted
  | SuggestionNotice nat string
  | OpenNotice string
  | TitleApplied

datatype event =
    HttpPost string string
  | Print notice
  | Prompt string
  | DeleteCall json
  | UpdateCall json json

record world =
  stdin :: "string list"
  trace :: "event list"

type_synonym 'a io = "world \<Rightarrow> (error + 'a) \<times> world"

definition io_return :: "'a \<Rightarrow> 'a io" where
  "io_return x w = (Inr x, w)"

definition io_bind :: "'a io \<Rightarrow> ('a \<Rightarrow> 'b io) \<Rightarrow> 'b io" where
  "io_bind m f w = (case m w of (Inl e, w') \<Rightarrow> (Inl e, w') | (Inr x, w') \<Rightarrow> f x w')"

text \<open>A computation without effect: its outcome, in the unchanged world.\<close>

definition io_pure :: "error + 'a \<Rightarrow> 'a io" where
  "io_pure r w = (r, w)"

definition emit :: "event \<Rightarrow> unit io" where
  "emit ev w = (Inr (), w\<lparr>trace := trace w @ [ev]\<rparr>)"

text \<open>\<^verbatim>\<open>input(prompt)\<close>: shows the prompt, then reads a line; end of input raises.\<close>

definition py_input :: "string \<Rightarrow> string io" where
  "py_input prompt w =
     (let w' = w\<lparr>trace := trace w @ [Prompt prompt]\<rparr>
      in case stdin w' of
           [] \<Rightarrow> (Inl EOFError, w')
         | line # rest \<Rightarrow> (Inr line, w'\<lparr>stdin := rest\<rparr>))"

section \<open>Title suggestion by the local model\<close>

text \<open>
  \<^verbatim>\<open>
  def suggest_title_llm(text, model="gemma:2b-instruct"):
      prompt = f"Suggest a short, clear title ... no Markdown::\n\n{text}"
      response = requests.post(
          "http://localhost:11434/api/generate",
          json={"model": model, "prompt": prompt, "stream": False}
      )
      try:
          return response.json()["response"].strip()
      except Exception:
          return "[LLM error: no title]"
  \<close>
  The endpoint is external. \<open>post model text\<close> is what \<^verbatim>\<open>requests.post\<close> does for the
  request whose prompt is the fixed template followed by \<open>text\<close>: it raises, or it returns
  a response, and a response is what its \<^verbatim>\<open>json()\<close> method does (it raises, or it
  returns the decoded body). The template is a constant of the source and is not spelled
  out (it contains a dash outside the modelled character range).
\<close>

type_synonym response = "error + json"

type_synonym endpoint = "string \<Rightarrow> string \<Rightarrow> error + response"

definition default_model :: string where
  "default_model = ''gemma:2b-instruct''"

definition suggestion_of_response :: "response \<Rightarrow> error + string" where
  "suggestion_of_response response =
     (case ebind response (\<lambda>body.
           ebind (py_getitem body (JStr ''response'')) py_strip) of
        Inr title \<Rightarrow> Inr title
      | Inl e \<Rightarrow> Inr ''[LLM error: no title]'')"

definition suggest_title_llm :: "endpoint \<Rightarrow> string \<Rightarrow> string io" where
  "suggest_title_llm post text =
     io_bind (emit (HttpPost default_model text)) (\<lambda>_.
     io_bind (io_pure (post default_model text)) (\<lambda>response.
       io_pure (suggestion_of_response response)))"

text \<open>
  \<^verbatim>\<open>
  def format_notion_url(page_id):
      return f"https://www.notion.so/{page_id.replace('-', '')}"
  \<close>
\<close>

fun format_notion_url :: "json \<Rightarrow> error + string" where
  "format_notion_url (JStr page_id) =
     Inr (''https://www.notion.so/'' @ filter (\<lambda>c. c \<noteq> CHR ''-'') page_id)"
| "format_notion_url obj = Inl AttributeError"

section \<open>Command line\<close>

text \<open>
  \<^verbatim>\<open>
  parser.add_argument("--auto-apply", action="store_true", help=...)
  parser.add_argument("--confirm-delete", action="store_true", default=True, help=...)
  args = parser.parse_args()
  \<close>
  The parser declares two options, both with the action \<^verbatim>\<open>store_true\<close>. The library
  matches the command line against the declared options: \<open>scan argv\<close> is the list of
  declared options it finds, in order, or the exit it takes (unknown argument, help). The
  namespace starts from the defaults (\<^verbatim>\<open>False\<close> for a \<^verbatim>\<open>store_true\<close> option unless the
  declaration gives one) and each occurrence runs the option's action.
\<close>

record args =
  auto_apply :: bool
  confirm_delete :: bool

datatype flag = AutoApplyFlag | ConfirmDeleteFlag

definition defaults :: args where
  "defaults = \<lparr>auto_apply = False, confirm_delete = True\<rparr>"

fun store_true :: "flag \<Rightarrow> args \<Rightarrow> args" where
  "store_true AutoApplyFlag a = a\<lparr>auto_apply := True\<rparr>"
| "store_true ConfirmDeleteFlag a = a\<lparr>confirm_delete := True\<rparr>"

definition parse_args :: "(string list \<Rightarrow> error + flag list) \<Rightarrow> string list \<Rightarrow> error + args" where
  "parse_args scan argv = ebind (scan argv) (\<lambda>flags. Inr (fold store_true flags defaults))"

section \<open>Action dispatch\<close>

text \<open>
  \<^verbatim>\<open>
  for idx, page in enumerate(stream_untitled_pages(), 1):
      page_id = page["id"]
      last_edited = page["last_edited_time"][:10]
      url = format_notion_url(page_id)
      raw_text = get_page_content_text(page_id)
      suggested_title = suggest_title_llm(raw_text) if raw_text else "[No content]"

      if is_empty(page_id) and args.confirm_delete:
          print(f"{idx}. Untitled and empty ... {format_notion_url(page_id)}")
          confirm = input("Delete this empty page? (yes/no): ").strip().lower()
          if confirm == "yes":
              notion.blocks.delete(page_id)
              print("Page deleted.\n")
          continue

      if suggested_title:
          print(f"{idx}. [Untitled] ... Suggested: \"{suggested_title}\"")
          print(f"   Open: {format_notion_url(page_id)}\n")
          if args.auto_apply:
              notion.pages.update(page_id=page_id,
                  properties={"title": {"title": [{"text": {"content": suggested_title}}]}})
              print("Title applied.\n")
          else:
              confirm = input("Apply this title? (yes/no): ").strip().lower()
              if confirm == "yes":
                  notion.pages.update(page_id=page_id,
                      properties={"title": {"title": [{"text": {"content": suggested_title}}]}})
                  print("Title applied.\n")
  \<close>
  \<open>process_page\<close> is the body of the loop for one page; \<open>delete_branch\<close> and
  \<open>title_branch\<close> are the bodies of its two \<^verbatim>\<open>if\<close> statements, \<open>dispatch\<close> the choice
  between them (the first ends in \<^verbatim>\<open>continue\<close>, so the second runs only when the first
  condition fails). A mutating call is
  recorded in the trace when it is issued, then raises or returns as the service decides.
\<close>

text \<open>\<^verbatim>\<open>x[:10]\<close>: the first ten items of a string or a list; other values cannot be sliced.\<close>

fun py_prefix10 :: "json \<Rightarrow> error + json" where
  "py_prefix10 (JStr s) = Inr (JStr (take 10 s))"
| "py_prefix10 (JList xs) = Inr (JList (take 10 xs))"
| "py_prefix10 obj = Inl TypeError"

definition title_properties :: "string \<Rightarrow> json" where
  "title_properties suggested_title =
     JDict [(''title'', JDict [(''title'',
       JList [JDict [(''text'', JDict [(''content'', JStr suggested_title)])]])])]"

definition call_delete :: "notion_client \<Rightarrow> json \<Rightarrow> unit io" where
  "call_delete notion page_id =
     io_bind (emit (DeleteCall page_id)) (\<lambda>_.
     io_bind (io_pure (blocks_delete notion page_id)) (\<lambda>_.
       io_return ()))"

definition call_update :: "notion_client \<Rightarrow> json \<Rightarrow> json \<Rightarrow> unit io" where
  "call_update notion page_id properties =
     io_bind (emit (UpdateCall page_id properties)) (\<lambda>_.
     io_bind (io_pure (pages_update notion page_id properties)) (\<lambda>_.
       io_return ()))"

definition delete_branch :: "notion_client \<Rightarrow> nat \<Rightarrow> json \<Rightarrow> unit io" where
  "delete_branch notion idx page_id =
     io_bind (io_pure (format_notion_url page_id)) (\<lambda>url.
     io_bind (emit (Print (EmptyNotice idx url))) (\<lambda>_.
     io_bind (py_input ''Delete this empty page? (yes/no): '') (\<lambda>line.
       let confirm = lower (strip line)
       in if confirm = ''yes''
          then io_bind (call_delete notion page_id) (\<lambda>_.
                 emit (Print PageDeleted))
          else io_return ())))"

definition title_branch :: "notion_client \<Rightarrow> args \<Rightarrow> nat \<Rightarrow> json \<Rightarrow> string \<Rightarrow> unit io" where
  "title_branch notion a idx page_id suggested_title =
     (if suggested_title \<noteq> []
      then io_bind (emit (Print (SuggestionNotice idx suggested_title))) (\<lambda>_.
           io_bind (io_pure (format_notion_url page_id)) (\<lambda>url.
           io_bind (emit (Print (OpenNotice url))) (\<lambda>_.
             if auto_apply a
             then io_bind (call_update notion page_id (title_properties suggested_title)) (\<lambda>_.
                    emit (Print TitleApplied))
             else io_bind (py_input ''Apply this title? (yes/no): '') (\<lambda>line.
                    let confirm = lower (strip line)
                    in if confirm = ''yes''
                       then io_bind (call_update notion page_id (title_properties suggested_title)) (\<lambda>_.
                              emit (Print TitleApplied))
                       else io_return ()))))
      else io_return ())"

definition dispatch ::
  "notion_client \<Rightarrow> args \<Rightarrow> nat \<Rightarrow> json \<Rightarrow> string \<Rightarrow> bool \<Rightarrow> unit io" where
  "dispatch notion a idx page_id suggested_title empty_page =
     (if empty_page \<and> confirm_delete a
      then delete_branch notion idx page_id
      else title_branch notion a idx page_id suggested_title)"

definition process_page :: "notion_client \<Rightarrow> endpoint \<Rightarrow> args \<Rightarrow> nat \<Rightarrow> json \<Rightarrow> unit io" where
  "process_page notion post a idx page =
     io_bind (io_pure (py_getitem page (JStr ''id''))) (\<lambda>page_id.
     io_bind (io_pure (ebind (py_getitem page (JStr ''last_edited_time'')) py_prefix10)) (\<lambda>last_edited.
     io_bind (io_pure (format_notion_url page_id)) (\<lambda>url.
     io_bind (io_pure (get_page_content_text notion page_id)) (\<lambda>raw_text.
     io_bind (if raw_text \<noteq> [] then suggest_title_llm post raw_text
              else io_return ''[No content]'') (\<lambda>suggested_title.
     io_bind (io_pure (is_empty notion page_id)) (\<lambda>empty_page.
       dispatch notion a idx page_id suggested_title empty_page))))))"

text \<open>The loop over the pages the generator yields, numbered from \<open>idx\<close>.\<close>

fun run_pages :: "notion_client \<Rightarrow> endpoint \<Rightarrow> args \<Rightarrow> nat \<Rightarrow> json list \<Rightarrow> unit io" where
  "run_pages notion post a idx [] = io_return ()"
| "run_pages notion post a idx (page # pages) =
     io_bind (process_page notion post a idx page) (\<lambda>_.
       run_pages notion post a (Suc idx) pages)"

section \<open>The shape of the data\<close>

text \<open>
  Total readers of a decoded value, used to state properties: a missing field reads as
  \<open>JNull\<close>, a value that is not a list has no items.
\<close>

definition jfield :: "string \<Rightarrow> json \<Rightarrow> json" where
  "jfield k v =
     (case v of
        JDict d \<Rightarrow> (case map_of d k of Some x \<Rightarrow> x | None \<Rightarrow> JNull)
      | _ \<Rightarrow> JNull)"

definition block_type_of :: "json \<Rightarrow> json" where
  "block_type_of block = jfield ''type'' block"

definition block_data_of :: "json \<Rightarrow> json" where
  "block_data_of block =
     (case block_type_of block of JStr ty \<Rightarrow> jfield ty block | _ \<Rightarrow> JNull)"

definition has_rich_text :: "json \<Rightarrow> bool" where
  "has_rich_text block =
     (case block_data_of block of
        JDict data \<Rightarrow> map_of data ''rich_text'' \<noteq> None
      | _ \<Rightarrow> False)"

definition rich_text_of :: "json \<Rightarrow> json list" where
  "rich_text_of block =
     (case jfield ''rich_text'' (block_data_of block) of JList spans \<Rightarrow> spans | _ \<Rightarrow> [])"

definition is_text_span :: "json \<Rightarrow> bool" where
  "is_text_span span = (jfield ''type'' span = JStr ''text'')"

definition span_content :: "json \<Rightarrow> string" where
  "span_content span =
     (case jfield ''content'' (jfield ''text'' span) of JStr s \<Rightarrow> s | _ \<Rightarrow> [])"

text \<open>The contents of the "text"-variant spans of a block, in order.\<close>

definition text_contents :: "json \<Rightarrow> string list" where
  "text_contents block = map span_content (filter is_text_span (rich_text_of block))"

text \<open>
  The part of the service's schema that the program reads. A rich-text span is an object
  with a string type tag; a span tagged "text" holds an object \<open>text\<close> with a string
  \<open>content\<close>. A block is an object with a string type tag, and under the key named by
  the tag an object of type-specific data; if that data has a \<open>rich_text\<close> entry, it is a
  list of spans.
\<close>

fun is_str :: "json option \<Rightarrow> bool" where
  "is_str (Some (JStr c)) = True"
| "is_str v = False"

fun wf_text_payload :: "json option \<Rightarrow> bool" where
  "wf_text_payload (Some (JDict t)) = is_str (map_of t ''content'')"
| "wf_text_payload v = False"

fun wf_span_fields :: "(string \<times> json) list \<Rightarrow> json option \<Rightarrow> bool" where
  "wf_span_fields s (Some (JStr ty)) =
     (if ty = ''text'' then wf_text_payload (map_of s ''text'') else True)"
| "wf_span_fields s v = False"

fun wf_span :: "json \<Rightarrow> bool" where
  "wf_span (JDict s) = wf_span_fields s (map_of s ''type'')"
| "wf_span v = False"

fun wf_rich_text :: "json option \<Rightarrow> bool" where
  "wf_rich_text None = True"
| "wf_rich_text (Some (JList spans)) = list_all wf_span spans"
| "wf_rich_text v = False"

fun wf_block_data :: "json option \<Rightarrow> bool" where
  "wf_block_data (Some (JDict data)) = wf_rich_text (map_of data ''rich_text'')"
| "wf_block_data v = False"

fun wf_block_fields :: "(string \<times> json) list \<Rightarrow> json option \<Rightarrow> bool" where
  "wf_block_fields b (Some (JStr ty)) = wf_block_data (map_of b ty)"
| "wf_block_fields b v = False"

fun wf_block :: "json \<Rightarrow> bool" where
  "wf_block (JDict b) = wf_block_fields b (map_of b ''type'')"
| "wf_block v = False"

section \<open>The emptiness check without the duplicated branch\<close>

text \<open>
  The design notes of the specification propose to collapse the second rich-text branch
  (the one for to_do, callout, toggle, quote and code) into the generic scan, so that those
  block types go through the generic checks and the catch-all. \<open>block_check_collapsed\<close>
  is \<open>block_check\<close> with that branch removed.
\<close>

definition block_check_collapsed :: "json \<Rightarrow> error + bool option" where
  "block_check_collapsed block =
     ebind (py_get block (JStr ''type'') JNull) (\<lambda>block_type.
     ebind (py_get block block_type (JDict [])) (\<lambda>block_data.
     ebind (py_contains ''rich_text'' block_data) (\<lambda>has_rich_text.
       if has_rich_text
       then ebind (py_getitem block_data (JStr ''rich_text'')) (\<lambda>rich_text.
            ebind (py_iter rich_text) (\<lambda>spans.
              for_loop span_nonblank spans))
       else if block_type \<in> JStr ` set visible_block_types
       then Inr (Some False)
       else if py_truthy block_data
       then Inr (Some False)
       else Inr None)))"

definition empty_scan_collapsed :: "json list \<Rightarrow> error + bool" where
  "empty_scan_collapsed blocks =
     ebind (for_loop block_check_collapsed blocks) (\<lambda>r.
       case r of Some b \<Rightarrow> Inr b | None \<Rightarrow> Inr True)"

definition is_empty_collapsed :: "notion_client \<Rightarrow> json \<Rightarrow> error + bool" where
  "is_empty_collapsed notion page_id =
     ebind (fetch_blocks notion page_id) empty_scan_collapsed"

section \<open>The shape of a search\<close>

text \<open>
  \<open>served notion cursor rs\<close>: the responses \<open>rs\<close> are what the service gives to a run
  that starts at \<open>cursor\<close>, the first to \<open>cursor\<close> and each further one to the next
  cursor of the one before; every response but the last supplies a next cursor, the last
  supplies none.
\<close>

fun served :: "notion_client \<Rightarrow> json \<Rightarrow> json list \<Rightarrow> bool" where
  "served notion cursor [] = False"
| "served notion cursor (r # rs) =
     (search notion cursor = Inr r \<and>
      (if rs = [] then \<not> py_truthy (jfield ''next_cursor'' r)
       else py_truthy (jfield ''next_cursor'' r)
            \<and> served notion (jfield ''next_cursor'' r) rs))"

text \<open>The pages of a response.\<close>

definition results_of :: "json \<Rightarrow> json list" where
  "results_of response =
     (case jfield ''results'' response of JList pages \<Rightarrow> pages | _ \<Rightarrow> [])"

text \<open>A page that \<open>is_untitled\<close> classifies: its resolved title is a string.\<close>

definition classified :: "json \<Rightarrow> bool" where
  "classified page = (case is_untitled page of Inr u \<Rightarrow> True | Inl e \<Rightarrow> False)"

text \<open>A search response: an object whose \<open>results\<close> are a list of such pages.\<close>

definition wf_response :: "json \<Rightarrow> bool" where
  "wf_response response =
     (case response of
        JDict r \<Rightarrow>
          (case map_of r ''results'' of
             Some (JList pages) \<Rightarrow> list_all classified pages
           | _ \<Rightarrow> False)
      | _ \<Rightarrow> False)"

section \<open>The blocks the service returns\<close>

text \<open>
  Which block types hold rich text is fixed by the service. The to-do-like types (to_do,
  callout, toggle, quote, code) always carry a \<open>rich_text\<close> entry. The always-visible
  types (image, video, file, embed, equation, pdf, bookmark, table, table_row,
  synced_block, link_to_page) never do: they hold a caption, a URL, an expression, cells
  or a reference. \<open>service_block\<close> is a block of the schema that respects both.
\<close>

definition service_block :: "json \<Rightarrow> bool" where
  "service_block block =
     (wf_block block
      \<and> (if block_type_of block \<in> JStr ` set visible_block_types
          then \<not> has_rich_text block else True)
      \<and> (if block_type_of block \<in> JStr ` set todo_block_types
          then has_rich_text block else True))"

section \<open>Example data\<close>

text \<open>A page as the search returns it: a tag property, then the title property.\<close>

definition example_span_fields :: "(string \<times> json) list" where
  "example_span_fields =
     [(''type'', JStr ''text''), (''text'', JDict [(''content'', JStr ''Untitled'')])]"

definition example_title_fields :: "(string \<times> json) list" where
  "example_title_fields =
     [(''type'', JStr ''title''), (''title'', JList [JDict example_span_fields])]"

definition example_props :: "(string \<times> json) list" where
  "example_props =
     [(''Tags'', JDict [(''type'', JStr ''multi_select'')]),
      (''Name'', JDict example_title_fields)]"

definition example_page_fields :: "(string \<times> json) list" where
  "example_page_fields =
     [(''id'', JStr ''1f2e-3d4c''),
      (''last_edited_time'', JStr ''2024-05-01T10:00:00.000Z''),
      (''properties'', JDict example_props)]"

definition example_page :: json where
  "example_page = JDict example_page_fields"

text \<open>A page with a title of its own, and a page whose title has no span.\<close>

definition example_titled_page :: json where
  "example_titled_page =
     JDict [(''id'', JStr ''77aa-00''),
            (''last_edited_time'', JStr ''2024-05-02T08:30:00.000Z''),
            (''properties'', JDict
               [(''Name'', JDict
                   [(''type'', JStr ''title''),
                    (''title'', JList
                       [JDict [(''type'', JStr ''text''),
                               (''text'', JDict [(''content'', JStr ''Roadmap'')])]])])])]"

definition example_blank_page :: json where
  "example_blank_page =
     JDict [(''id'', JStr ''9b-42''),
            (''last_edited_time'', JStr ''2024-05-03T17:45:00.000Z''),
            (''properties'', JDict
               [(''Name'', JDict [(''type'', JStr ''title''), (''title'', JList [])])])]"

text \<open>Two search responses: the first names a next cursor, the second does not.\<close>

definition example_response_1 :: json where
  "example_response_1 =
     JDict [(''results'', JList [example_page, example_titled_page]),
            (''next_cursor'', JStr ''c1'')]"

definition example_response_2 :: json where
  "example_response_2 =
     JDict [(''results'', JList [example_blank_page]), (''next_cursor'', JNull)]"

text \<open>Blocks: a paragraph with text, and a paragraph without.\<close>

definition example_text_block :: json where
  "example_text_block =
     JDict [(''type'', JStr ''paragraph''),
            (''paragraph'', JDict
               [(''rich_text'', JList
                   [JDict [(''type'', JStr ''text''),
                           (''text'', JDict [(''content'', JStr ''Meeting notes'')])]]),
                (''color'', JStr ''default'')])]"

definition example_blank_block :: json where
  "example_blank_block =
     JDict [(''type'', JStr ''paragraph''),
            (''paragraph'', JDict
               [(''rich_text'', JList []), (''color'', JStr ''default'')])]"

definition example_heading_block :: json where
  "example_heading_block =
     JDict [(''type'', JStr ''heading_1''),
            (''heading_1'', JDict
               [(''rich_text'', JList
                   [JDict [(''type'', JStr ''text''),
                           (''text'', JDict [(''content'', JStr ''  Plan '')])]])])]"

text \<open>A to-do item with text, and a paragraph that holds a mention between two texts.\<close>

definition example_todo_block :: json where
  "example_todo_block =
     JDict [(''type'', JStr ''to_do''),
            (''to_do'', JDict
               [(''rich_text'', JList
                   [JDict [(''type'', JStr ''text''),
                           (''text'', JDict [(''content'', JStr ''buy milk'')])]]),
                (''checked'', JBool False)])]"

definition example_mixed_block :: json where
  "example_mixed_block =
     JDict [(''type'', JStr ''paragraph''),
            (''paragraph'', JDict
               [(''rich_text'', JList
                   [JDict [(''type'', JStr ''text''),
                           (''text'', JDict [(''content'', JStr ''Meeting'')])],
                    JDict [(''type'', JStr ''mention''),
                           (''mention'', JDict [(''type'', JStr ''date'')])],
                    JDict [(''type'', JStr ''text''),
                           (''text'', JDict [(''content'', JStr ''notes '')])]])])]"

text \<open>
  Blocks as the service returns them: a to-do item without text, an image, a divider
  (its data is empty) and a sub-page (its data is a title, not rich text).
\<close>

definition example_blank_todo_block :: json where
  "example_blank_todo_block =
     JDict [(''type'', JStr ''to_do''),
            (''to_do'', JDict
               [(''rich_text'', JList []), (''checked'', JBool False)])]"

definition example_image_block :: json where
  "example_image_block =
     JDict [(''type'', JStr ''image''),
            (''image'', JDict
               [(''type'', JStr ''external''),
                (''external'', JDict [(''url'', JStr ''https://example.org/a.png'')]),
                (''caption'', JList [])])]"

definition example_divider_block :: json where
  "example_divider_block =
     JDict [(''type'', JStr ''divider''), (''divider'', JDict [])]"

definition example_child_page_block :: json where
  "example_child_page_block =
     JDict [(''type'', JStr ''child_page''),
            (''child_page'', JDict [(''title'', JStr ''Archive'')])]"

text \<open>
  Two blocks that the checks accept although the service does not produce them: an image
  whose data has a \<open>rich_text\<close> entry, and a to-do item whose data has none.
\<close>

definition odd_image_block :: json where
  "odd_image_block =
     JDict [(''type'', JStr ''image''),
            (''image'', JDict
               [(''rich_text'', JList []),
                (''type'', JStr ''external'')])]"

definition bare_todo_block :: json where
  "bare_todo_block =
     JDict [(''type'', JStr ''to_do''),
            (''to_do'', JDict [(''checked'', JBool False)])]"

text \<open>
  A workspace: what each page holds is told by its identifier; the mutating calls succeed.
\<close>

definition example_children :: "json \<Rightarrow> json list" where
  "example_children page_id =
     (if page_id = JStr ''1f2e-3d4c'' then [example_text_block]
      else if page_id = JStr ''77aa-00''
      then [example_heading_block, example_todo_block, example_mixed_block]
      else if page_id = JStr ''0a-img'' then [odd_image_block]
      else if page_id = JStr ''0b-todo'' then [bare_todo_block]
      else if page_id = JStr ''0c-plain''
      then [example_blank_block, example_blank_todo_block, example_divider_block]
      else if page_id = JStr ''0d-image'' then [example_blank_block, example_image_block]
      else if page_id = JStr ''0e-sub'' then [example_blank_todo_block, example_child_page_block]
      else if page_id = JStr ''0f-todo'' then [example_blank_block, example_todo_block]
      else [example_blank_block])"

definition example_client :: notion_client where
  "example_client =
     \<lparr>search = (\<lambda>cursor. if cursor = JNull then Inr example_response_1
                         else Inr example_response_2),
      children_list = (\<lambda>page_id.
         Inr (JDict [(''results'', JList (example_children page_id))])),
      blocks_delete = (\<lambda>page_id. Inr (JDict [])),
      pages_update = (\<lambda>page_id properties. Inr (JDict []))\<rparr>"

text \<open>
  Two generation endpoints: one answers with a title, one with nothing but spaces.
\<close>

definition example_endpoint :: endpoint where
  "example_endpoint =
     (\<lambda>model text. Inr (Inr (JDict [(''response'', JStr '' Weekly meeting notes ''),
                                     (''done'', JBool True)])))"

definition blank_endpoint :: endpoint where
  "blank_endpoint =
     (\<lambda>model text. Inr (Inr (JDict [(''response'', JStr ''  ''), (''done'', JBool True)])))"

section \<open>Basic facts\<close>

lemma ebind_simps:
  "ebind (Inl e) f = Inl e"
  "ebind (Inr x) f = f x"
  by (simp_all add: ebind_def)

section \<open>Properties of title resolution and classification\<close>

lemma for_loop_skip:
  "\<forall>x\<in>set pre. body x = Inr None \<Longrightarrow> for_loop body (pre @ xs) = for_loop body xs"
  by (induction pre) simp_all

lemma for_loop_all_skip:
  "\<forall>x\<in>set xs. body x = Inr None \<Longrightarrow> for_loop body xs = Inr None"
  by (induction xs) simp_all

subsection \<open>Title resolution\<close>

lemma title_of_prop_other:
  "map_of dq ''type'' \<noteq> Some (JStr ''title'') \<Longrightarrow> title_of_prop (JDict dq) = Inr None"
  by (auto simp: title_of_prop_def ebind_simps split: option.splits)

lemma title_of_prop_first:
  assumes "map_of d ''type'' = Some (JStr ''title'')"
    and "map_of d ''title'' = Some (JList (JDict s # spans))"
    and "map_of s ''text'' = Some (JDict t)"
    and "map_of t ''content'' = Some c"
  shows "title_of_prop (JDict d) = Inr (Some c)"
  using assms by (simp add: title_of_prop_def ebind_simps seq_item_def)

lemma title_of_prop_empty:
  assumes "map_of d ''type'' = Some (JStr ''title'')"
    and "map_of d ''title'' = Some (JList []) \<or> map_of d ''title'' = None"
  shows "title_of_prop (JDict d) = Inr (Some (JStr ''''))"
  using assms by (auto simp: title_of_prop_def ebind_simps)

lemma extract_title_try_scan:
  assumes "map_of pg ''properties'' = Some (JDict props)"
    and "map snd props = pre @ JDict d # post"
    and "\<forall>q\<in>set pre. \<exists>dq. q = JDict dq \<and> map_of dq ''type'' \<noteq> Some (JStr ''title'')"
  shows "extract_title_try (JDict pg) = for_loop title_of_prop (JDict d # post)"
proof -
  have skip: "\<forall>q\<in>set pre. title_of_prop q = Inr None"
  proof
    fix q assume "q \<in> set pre"
    with assms(3) obtain dq where "q = JDict dq" "map_of dq ''type'' \<noteq> Some (JStr ''title'')"
      by auto
    then show "title_of_prop q = Inr None"
      by (simp add: title_of_prop_other)
  qed
  have "extract_title_try (JDict pg) = for_loop title_of_prop (map snd props)"
    using assms(1) by (simp add: extract_title_try_def ebind_simps)
  also have "\<dots> = for_loop title_of_prop (pre @ JDict d # post)"
    by (simp only: assms(2))
  also have "\<dots> = for_loop title_of_prop (JDict d # post)"
    using skip by (rule for_loop_skip)
  finally show ?thesis .
qed

lemma extract_title_found:
  assumes "map_of pg ''properties'' = Some (JDict props)"
    and "map snd props = pre @ JDict d # post"
    and "\<forall>q\<in>set pre. \<exists>dq. q = JDict dq \<and> map_of dq ''type'' \<noteq> Some (JStr ''title'')"
    and "title_of_prop (JDict d) = Inr (Some v)"
  shows "extract_title (JDict pg) = Inr v"
proof -
  have "extract_title_try (JDict pg) = for_loop title_of_prop (JDict d # post)"
    using assms(1,2,3) by (rule extract_title_try_scan)
  also have "\<dots> = Inr (Some v)"
    by (simp add: assms(4))
  finally show ?thesis
    by (simp add: extract_title_def)
qed

lemma extract_title_not_found:
  assumes "map_of pg ''properties'' = Some (JDict props)"
    and "\<forall>q\<in>set (map snd props). \<exists>dq. q = JDict dq \<and> map_of dq ''type'' \<noteq> Some (JStr ''title'')"
  shows "extract_title (JDict pg) = Inr (JStr ''[Untitled]'')"
proof -
  have "title_of_prop q = Inr None" if "q \<in> set (map snd props)" for q
  proof -
    from assms(2) that obtain dq where "q = JDict dq" "map_of dq ''type'' \<noteq> Some (JStr ''title'')"
      by auto
    then show ?thesis by (simp add: title_of_prop_other)
  qed
  then have "for_loop title_of_prop (map snd props) = Inr None"
    by (simp add: for_loop_all_skip)
  then have "extract_title_try (JDict pg) = Inr None"
    using assms(1) by (simp add: extract_title_try_def ebind_simps)
  then show ?thesis
    by (simp add: extract_title_def)
qed

text \<open>
  C5. Title resolution never raises. Whatever the \<^verbatim>\<open>try\<close> block raises, the result is
  the sentinel \<open>[Untitled]\<close>. Where the properties before the first one typed "title"
  are objects of another type: if the title property's span list starts with a span
  holding \<open>text.content\<close>, that content is the result; if the span list is empty or
  missing, the result is the empty string. Where every property is an object of another
  type, the result is the sentinel.
\<close>

theorem extract_title_resolution:
  "(\<exists>v. extract_title page = Inr v)
   \<and> (\<forall>e. extract_title_try page = Inl e \<longrightarrow> extract_title page = Inr (JStr ''[Untitled]''))
   \<and> (\<forall>pg props pre d post s spans t c.
         page = JDict pg \<and> map_of pg ''properties'' = Some (JDict props)
         \<and> map snd props = pre @ JDict d # post
         \<and> (\<forall>q\<in>set pre. \<exists>dq. q = JDict dq \<and> map_of dq ''type'' \<noteq> Some (JStr ''title''))
         \<and> map_of d ''type'' = Some (JStr ''title'')
         \<and> map_of d ''title'' = Some (JList (JDict s # spans))
         \<and> map_of s ''text'' = Some (JDict t) \<and> map_of t ''content'' = Some c
         \<longrightarrow> extract_title page = Inr c)
   \<and> (\<forall>pg props pre d post.
         page = JDict pg \<and> map_of pg ''properties'' = Some (JDict props)
         \<and> map snd props = pre @ JDict d # post
         \<and> (\<forall>q\<in>set pre. \<exists>dq. q = JDict dq \<and> map_of dq ''type'' \<noteq> Some (JStr ''title''))
         \<and> map_of d ''type'' = Some (JStr ''title'')
         \<and> (map_of d ''title'' = Some (JList []) \<or> map_of d ''title'' = None)
         \<longrightarrow> extract_title page = Inr (JStr ''''))
   \<and> (\<forall>pg props.
         page = JDict pg \<and> map_of pg ''properties'' = Some (JDict props)
         \<and> (\<forall>q\<in>set (map snd props). \<exists>dq. q = JDict dq \<and> map_of dq ''type'' \<noteq> Some (JStr ''title''))
         \<longrightarrow> extract_title page = Inr (JStr ''[Untitled]''))"
proof (intro conjI allI impI)
  show "\<exists>v. extract_title page = Inr v"
    by (simp add: extract_title_def split: sum.split option.split)
next
  fix e assume "extract_title_try page = Inl e"
  then show "extract_title page = Inr (JStr ''[Untitled]'')"
    by (simp add: extract_title_def)
next
  fix pg props pre d post s spans t c
  assume h: "page = JDict pg \<and> map_of pg ''properties'' = Some (JDict props)
         \<and> map snd props = pre @ JDict d # post
         \<and> (\<forall>q\<in>set pre. \<exists>dq. q = JDict dq \<and> map_of dq ''type'' \<noteq> Some (JStr ''title''))
         \<and> map_of d ''type'' = Some (JStr ''title'')
         \<and> map_of d ''title'' = Some (JList (JDict s # spans))
         \<and> map_of s ''text'' = Some (JDict t) \<and> map_of t ''content'' = Some c"
  from h have "title_of_prop (JDict d) = Inr (Some c)"
    by (elim conjE) (rule title_of_prop_first)
  with h show "extract_title page = Inr c"
    by (elim conjE) (simp only: extract_title_found)
next
  fix pg props pre d post
  assume h: "page = JDict pg \<and> map_of pg ''properties'' = Some (JDict props)
         \<and> map snd props = pre @ JDict d # post
         \<and> (\<forall>q\<in>set pre. \<exists>dq. q = JDict dq \<and> map_of dq ''type'' \<noteq> Some (JStr ''title''))
         \<and> map_of d ''type'' = Some (JStr ''title'')
         \<and> (map_of d ''title'' = Some (JList []) \<or> map_of d ''title'' = None)"
  from h have "title_of_prop (JDict d) = Inr (Some (JStr ''''))"
    by (elim conjE) (rule title_of_prop_empty)
  with h show "extract_title page = Inr (JStr '''')"
    by (elim conjE) (simp only: extract_title_found)
next
  fix pg props
  assume h: "page = JDict pg \<and> map_of pg ''properties'' = Some (JDict props)
         \<and> (\<forall>q\<in>set (map snd props). \<exists>dq. q = JDict dq \<and> map_of dq ''type'' \<noteq> Some (JStr ''title''))"
  then show "extract_title page = Inr (JStr ''[Untitled]'')"
    by (elim conjE) (simp only: extract_title_not_found)
qed

theorem extract_title_resolution_witness:
  "extract_title example_page = Inr (JStr ''Untitled'')
   \<and> extract_title (JDict [(''properties'', JDict
         [(''Name'', JDict [(''type'', JStr ''title''), (''title'', JList [])])])])
       = Inr (JStr '''')
   \<and> extract_title (JDict [(''properties'', JDict
         [(''Tags'', JDict [(''type'', JStr ''multi_select'')])])])
       = Inr (JStr ''[Untitled]'')
   \<and> extract_title JNull = Inr (JStr ''[Untitled]'')"
proof (intro conjI)
  show "extract_title example_page = Inr (JStr ''Untitled'')"
    by (rule extract_title_resolution [THEN conjunct2, THEN conjunct2, THEN conjunct1,
          rule_format,
          where pg = example_page_fields and props = example_props
            and pre = "[JDict [(''type'', JStr ''multi_select'')]]"
            and d = example_title_fields and post = "[]"
            and s = example_span_fields and spans = "[]"
            and t = "[(''content'', JStr ''Untitled'')]"])
      (simp add: example_page_def example_page_fields_def example_props_def
         example_title_fields_def example_span_fields_def)
next
  show "extract_title (JDict [(''properties'', JDict
         [(''Name'', JDict [(''type'', JStr ''title''), (''title'', JList [])])])])
       = Inr (JStr '''')"
    by (rule extract_title_resolution [THEN conjunct2, THEN conjunct2, THEN conjunct2,
          THEN conjunct1, rule_format,
          where pg = "[(''properties'', JDict
             [(''Name'', JDict [(''type'', JStr ''title''), (''title'', JList [])])])]"
            and props = "[(''Name'', JDict [(''type'', JStr ''title''), (''title'', JList [])])]"
            and pre = "[]"
            and d = "[(''type'', JStr ''title''), (''title'', JList [])]"
            and post = "[]"])
      simp
next
  show "extract_title (JDict [(''properties'', JDict
         [(''Tags'', JDict [(''type'', JStr ''multi_select'')])])])
       = Inr (JStr ''[Untitled]'')"
    by (rule extract_title_resolution [THEN conjunct2, THEN conjunct2, THEN conjunct2,
          THEN conjunct2, rule_format,
          where pg = "[(''properties'', JDict
             [(''Tags'', JDict [(''type'', JStr ''multi_select'')])])]"
            and props = "[(''Tags'', JDict [(''type'', JStr ''multi_select'')])]"])
      simp
next
  show "extract_title JNull = Inr (JStr ''[Untitled]'')"
    by (rule extract_title_resolution [THEN conjunct2, THEN conjunct1, rule_format,
          where e = AttributeError])
      (simp add: extract_title_try_def ebind_simps)
qed

text \<open>
  C6. \<open>is_untitled\<close> answers \<^verbatim>\<open>True\<close> exactly when the resolved title is a string whose
  lower-case form is empty, \<open>untitled\<close> or \<open>[untitled]\<close>, and \<^verbatim>\<open>False\<close> exactly when
  it is a string with any other lower-case form. (A resolved title that is not a string
  has no lower-case form: \<^verbatim>\<open>title.lower()\<close> raises and the page is not classified.)
\<close>

theorem is_untitled_iff:
  "(is_untitled page = Inr True \<longleftrightarrow>
      (\<exists>t. extract_title page = Inr (JStr t)
           \<and> lower t \<in> {'''', ''untitled'', ''[untitled]''}))
   \<and> (is_untitled page = Inr False \<longleftrightarrow>
      (\<exists>t. extract_title page = Inr (JStr t)
           \<and> lower t \<notin> {'''', ''untitled'', ''[untitled]''}))"
proof (cases "extract_title page")
  case (Inl e)
  then show ?thesis
    by (simp add: is_untitled_def ebind_simps)
next
  case (Inr v)
  then show ?thesis
    by (cases v) (auto simp: is_untitled_def ebind_simps)
qed

theorem is_untitled_iff_witness:
  "is_untitled example_page = Inr True
   \<and> extract_title example_page = Inr (JStr ''Untitled'')
   \<and> lower ''Untitled'' = ''untitled''"
proof -
  have t: "extract_title example_page = Inr (JStr ''Untitled'')"
    by (simp add: example_page_def example_page_fields_def example_props_def
        example_title_fields_def example_span_fields_def extract_title_def
        extract_title_try_def title_of_prop_def ebind_simps seq_item_def)
  have l: "lower ''Untitled'' = ''untitled''"
    by code_simp
  have "is_untitled example_page = Inr True"
    using is_untitled_iff [of example_page] t l by simp
  with t l show ?thesis by simp
qed

subsection \<open>Command line\<close>

lemma fold_store_true_confirm:
  "confirm_delete a \<Longrightarrow> confirm_delete (fold store_true flags a)"
proof (induction flags arbitrary: a)
  case Nil
  then show ?case by simp
next
  case (Cons f flags)
  have "confirm_delete (store_true f a)"
    using Cons.prems by (cases f) simp_all
  then show ?case
    using Cons.IH by simp
qed

text \<open>
  C3. Whatever the library finds on an accepted command line, the parsed
  \<open>confirm_delete\<close> is true: the default is true and the only action that writes it
  stores true. So the dispatch takes the deletion branch exactly when the page is empty.
\<close>

theorem parse_args_confirm_delete:
  "parse_args scan argv = Inr a \<Longrightarrow>
     confirm_delete a
     \<and> dispatch notion a idx page_id suggested_title empty_page =
         (if empty_page then delete_branch notion idx page_id
          else title_branch notion a idx page_id suggested_title)"
  by (auto simp: parse_args_def ebind_def dispatch_def defaults_def fold_store_true_confirm
      split: sum.splits)

theorem parse_args_confirm_delete_witness:
  "parse_args (\<lambda>argv. if argv = [''--auto-apply''] then Inr [AutoApplyFlag] else Inl SystemExit)
     [''--auto-apply''] = Inr \<lparr>auto_apply = True, confirm_delete = True\<rparr>
   \<and> confirm_delete \<lparr>auto_apply = True, confirm_delete = True\<rparr>"
proof -
  have p: "parse_args (\<lambda>argv. if argv = [''--auto-apply''] then Inr [AutoApplyFlag]
                       else Inl SystemExit) [''--auto-apply'']
           = Inr \<lparr>auto_apply = True, confirm_delete = True\<rparr>"
    by (simp add: parse_args_def ebind_simps defaults_def)
  from parse_args_confirm_delete [OF p] have "confirm_delete \<lparr>auto_apply = True, confirm_delete = True\<rparr>"
    by (rule conjunct1)
  with p show ?thesis by simp
qed

subsection \<open>Title suggestion\<close>

lemma suggestion_of_response_total: "\<exists>s. suggestion_of_response response = Inr s"
  by (simp add: suggestion_of_response_def split: sum.split)

lemma suggest_title_llm_returns:
  "post default_model text = Inr response \<Longrightarrow>
     suggest_title_llm post text w =
       (suggestion_of_response response, w\<lparr>trace := trace w @ [HttpPost default_model text]\<rparr>)"
  by (simp add: suggest_title_llm_def io_bind_def io_pure_def emit_def)

text \<open>
  C1. The specification has every failure of the request end in the sentinel. The code
  does not: \<^verbatim>\<open>requests.post\<close> stands before the \<^verbatim>\<open>try\<close> block, so when the endpoint
  cannot be reached the connection error leaves \<open>suggest_title_llm\<close>. (A failure of
  \<^verbatim>\<open>json()\<close>, of the lookup or of \<^verbatim>\<open>strip\<close> does end in the sentinel:
  \<open>suggestion_of_response_total\<close>.)
\<close>

theorem suggest_title_llm_connection_error:
  "suggest_title_llm (\<lambda>model text. Inl ConnectionError) ''Meeting notes''
     \<lparr>stdin = [], trace = []\<rparr>
   = (Inl ConnectionError,
      \<lparr>stdin = [], trace = [HttpPost ''gemma:2b-instruct'' ''Meeting notes'']\<rparr>)"
  by (simp add: suggest_title_llm_def io_bind_def io_pure_def emit_def default_model_def)

subsection \<open>Reading blocks that follow the schema\<close>

lemma wf_span_cases:
  assumes "wf_span span"
  obtains s ty where "span = JDict s" "map_of s ''type'' = Some (JStr ty)" "ty \<noteq> ''text''"
  | s t c where "span = JDict s" "map_of s ''type'' = Some (JStr ''text'')"
      "map_of s ''text'' = Some (JDict t)" "map_of t ''content'' = Some (JStr c)"
proof -
  from assms obtain s where s: "span = JDict s" "wf_span_fields s (map_of s ''type'')"
    by (auto elim: wf_span.elims(2))
  from s(2) obtain ty where ty: "map_of s ''type'' = Some (JStr ty)"
    and p: "ty = ''text'' \<Longrightarrow> wf_text_payload (map_of s ''text'')"
    by (auto elim!: wf_span_fields.elims(2) split: if_splits)
  show thesis
  proof (cases "ty = ''text''")
    case True
    with p obtain t where t: "map_of s ''text'' = Some (JDict t)" "is_str (map_of t ''content'')"
      by (auto elim: wf_text_payload.elims(2))
    from t(2) obtain c where "map_of t ''content'' = Some (JStr c)"
      by (auto elim: is_str.elims(2))
    with s(1) ty True t(1) that(2) show thesis by simp
  next
    case False
    with s(1) ty that(1) show thesis by simp
  qed
qed

lemma wf_block_cases:
  assumes "wf_block block"
  obtains b ty data where "block = JDict b" "map_of b ''type'' = Some (JStr ty)"
      "map_of b ty = Some (JDict data)" "map_of data ''rich_text'' = None"
  | b ty data spans where "block = JDict b" "map_of b ''type'' = Some (JStr ty)"
      "map_of b ty = Some (JDict data)" "map_of data ''rich_text'' = Some (JList spans)"
      "list_all wf_span spans"
proof -
  from assms obtain b where b: "block = JDict b" "wf_block_fields b (map_of b ''type'')"
    by (auto elim: wf_block.elims(2))
  from b(2) obtain ty where ty: "map_of b ''type'' = Some (JStr ty)" "wf_block_data (map_of b ty)"
    by (auto elim: wf_block_fields.elims(2))
  from ty(2) obtain data where d: "map_of b ty = Some (JDict data)"
      "wf_rich_text (map_of data ''rich_text'')"
    by (auto elim: wf_block_data.elims(2))
  from d(2) consider "map_of data ''rich_text'' = None"
    | spans where "map_of data ''rich_text'' = Some (JList spans)" "list_all wf_span spans"
    by (auto elim: wf_rich_text.elims(2))
  then show thesis
  proof cases
    case 1
    with b(1) ty(1) d(1) that(1) show thesis by simp
  next
    case 2
    with b(1) ty(1) d(1) that(2) show thesis by simp
  qed
qed

lemma block_reads:
  assumes "block = JDict b" "map_of b ''type'' = Some (JStr ty)" "map_of b ty = Some (JDict data)"
  shows "block_type_of block = JStr ty"
    and "block_data_of block = JDict data"
    and "py_get block (JStr ''type'') JNull = Inr (JStr ty)"
    and "py_getitem block (JStr ''type'') = Inr (JStr ty)"
    and "py_get block (JStr ty) (JDict []) = Inr (JDict data)"
    and "py_getitem block (JStr ty) = Inr (JDict data)"
  using assms by (simp_all add: block_type_of_def block_data_of_def jfield_def)

lemma span_reads_text:
  assumes "span = JDict s" "map_of s ''type'' = Some (JStr ''text'')"
    "map_of s ''text'' = Some (JDict t)" "map_of t ''content'' = Some (JStr c)"
  shows "is_text_span span" and "span_content span = c"
  using assms by (simp_all add: is_text_span_def span_content_def jfield_def)

lemma span_reads_other:
  assumes "span = JDict s" "map_of s ''type'' = Some (JStr ty)" "ty \<noteq> ''text''"
  shows "\<not> is_text_span span"
  using assms by (simp add: is_text_span_def jfield_def)

subsection \<open>The stream of untitled pages\<close>

lemma yield_untitled_classified:
  "list_all classified pages \<Longrightarrow>
     yield_untitled pages = (filter (\<lambda>p. is_untitled p = Inr True) pages, None)"
proof (induction pages)
  case Nil
  then show ?case by simp
next
  case (Cons p pages)
  from Cons.prems obtain u where u: "is_untitled p = Inr u"
    by (auto simp: classified_def split: sum.splits)
  from Cons have "yield_untitled pages = (filter (\<lambda>p. is_untitled p = Inr True) pages, None)"
    by simp
  with u show ?case by simp
qed

lemma wf_response_reads:
  assumes "wf_response r"
  shows "ebind (py_getitem r (JStr ''results'')) py_iter = Inr (results_of r)"
    and "py_get r (JStr ''next_cursor'') JNull = Inr (jfield ''next_cursor'' r)"
    and "list_all classified (results_of r)"
  using assms
  by (auto simp: wf_response_def results_of_def jfield_def ebind_simps
      split: json.splits option.splits)

lemma stream_from_served:
  "served notion cursor rs \<Longrightarrow> list_all wf_response rs \<Longrightarrow>
     stream_from notion cursor =
       Some (filter (\<lambda>p. is_untitled p = Inr True) (concat (map results_of rs)), None)"
proof (induction rs arbitrary: cursor)
  case Nil
  then show ?case by simp
next
  case (Cons r rs)
  from Cons.prems have s: "search notion cursor = Inr r" and wf: "wf_response r"
    by simp_all
  note reads = wf_response_reads [OF wf]
  have y: "yield_untitled (results_of r)
           = (filter (\<lambda>p. is_untitled p = Inr True) (results_of r), None)"
    using reads(3) by (rule yield_untitled_classified)
  show ?case
  proof (cases "rs = []")
    case True
    with Cons.prems have "\<not> py_truthy (jfield ''next_cursor'' r)" by simp
    with True s reads(1,2) y show ?thesis
      by (subst stream_from.simps) simp
  next
    case False
    with Cons.prems have t: "py_truthy (jfield ''next_cursor'' r)"
      and rest: "served notion (jfield ''next_cursor'' r) rs" "list_all wf_response rs"
      by simp_all
    have "stream_from notion (jfield ''next_cursor'' r)
          = Some (filter (\<lambda>p. is_untitled p = Inr True) (concat (map results_of rs)), None)"
      using rest by (rule Cons.IH)
    with t s reads(1,2) y show ?thesis
      by (subst stream_from.simps) simp
  qed
qed

text \<open>
  C8. When the service answers a run with a finite sequence of search responses, the last
  of which supplies no next cursor, the generator terminates, without raising, and yields
  exactly the pages of those responses that \<open>is_untitled\<close> classifies as untitled, in
  order.
\<close>

theorem stream_untitled_pages_yields:
  "served notion JNull rs \<Longrightarrow> list_all wf_response rs \<Longrightarrow>
     stream_untitled_pages notion =
       Some (filter (\<lambda>p. is_untitled p = Inr True) (concat (map results_of rs)), None)"
  unfolding stream_untitled_pages_def by (rule stream_from_served)

theorem stream_untitled_pages_yields_witness:
  "served example_client JNull [example_response_1, example_response_2]
   \<and> list_all wf_response [example_response_1, example_response_2]
   \<and> stream_untitled_pages example_client = Some ([example_page, example_blank_page], None)"
proof -
  have s: "served example_client JNull [example_response_1, example_response_2]"
    by code_simp
  have w: "list_all wf_response [example_response_1, example_response_2]"
    by code_simp
  have f: "filter (\<lambda>p. is_untitled p = Inr True)
             (concat (map results_of [example_response_1, example_response_2]))
           = [example_page, example_blank_page]"
    by code_simp
  from stream_untitled_pages_yields [OF s w] f
  have "stream_untitled_pages example_client = Some ([example_page, example_blank_page], None)"
    by simp
  with s w show ?thesis by simp
qed

subsection \<open>Content text extraction\<close>

lemma append_span_text_wf:
  assumes "wf_span span"
  shows "append_span_text acc span =
           Inr (acc @ (if is_text_span span then [JStr (span_content span)] else []))"
  using assms
proof (cases rule: wf_span_cases)
  case (1 s ty)
  then show ?thesis
    by (simp add: append_span_text_def ebind_simps span_reads_other)
next
  case (2 s t c)
  then show ?thesis
    by (simp add: append_span_text_def ebind_simps span_reads_text)
qed

lemma for_acc_append_span_text:
  "list_all wf_span spans \<Longrightarrow>
     for_acc append_span_text acc spans =
       Inr (acc @ map JStr (map span_content (filter is_text_span spans)))"
proof (induction spans arbitrary: acc)
  case Nil
  then show ?case by simp
next
  case (Cons span spans)
  then show ?case
    by (simp add: append_span_text_wf)
qed

lemma append_block_text_wf:
  assumes "wf_block block"
  shows "append_block_text acc block =
           Inr (acc @ (if block_type_of block \<in> JStr ` set text_block_types
                       then map JStr (text_contents block) else []))"
  using assms
proof (cases rule: wf_block_cases)
  case (1 b ty data)
  note r = block_reads [OF 1(1,2,3)]
  from 1(4) r(2) have "text_contents block = []"
    by (simp add: text_contents_def rich_text_of_def jfield_def)
  with 1(4) r show ?thesis
    by (simp add: append_block_text_def ebind_simps)
next
  case (2 b ty data spans)
  note r = block_reads [OF 2(1,2,3)]
  from 2(4) r(2) have "text_contents block = map span_content (filter is_text_span spans)"
    by (simp add: text_contents_def rich_text_of_def jfield_def)
  with 2(4,5) r show ?thesis
    by (simp add: append_block_text_def ebind_simps for_acc_append_span_text)
qed

lemma for_acc_append_block_text:
  "list_all wf_block blocks \<Longrightarrow>
     for_acc append_block_text acc blocks =
       Inr (acc @ map JStr (concat (map text_contents
              (filter (\<lambda>b. block_type_of b \<in> JStr ` set text_block_types) blocks))))"
proof (induction blocks arbitrary: acc)
  case Nil
  then show ?case by simp
next
  case (Cons block blocks)
  then show ?case
    by (simp add: append_block_text_wf)
qed

lemma str_parts_strings: "str_parts (map JStr ss) = Inr ss"
  by (induction ss) (simp_all add: ebind_simps)

lemma content_text_wf:
  "list_all wf_block blocks \<Longrightarrow>
     content_text blocks =
       Inr (strip (join '' '' (concat (map text_contents
              (filter (\<lambda>b. block_type_of b \<in> JStr ` set text_block_types) blocks)))))"
  by (simp add: content_text_def for_acc_append_block_text ebind_simps str_parts_strings)

text \<open>
  C7. For a fetched list of blocks that follow the schema, the extracted text is the
  contents of the "text"-variant spans of the blocks typed paragraph, heading_1, heading_2
  or heading_3, in order, joined by single spaces and then stripped of surrounding
  whitespace; with no such span it is the empty string.
\<close>

theorem get_page_content_text_joins:
  "fetch_blocks notion page_id = Inr blocks \<Longrightarrow> list_all wf_block blocks \<Longrightarrow>
     get_page_content_text notion page_id =
       Inr (strip (join '' '' (concat (map text_contents
              (filter (\<lambda>b. block_type_of b \<in> JStr ` set text_block_types) blocks)))))
     \<and> (concat (map text_contents
              (filter (\<lambda>b. block_type_of b \<in> JStr ` set text_block_types) blocks)) = []
          \<longrightarrow> get_page_content_text notion page_id = Inr '''')"
proof -
  assume f: "fetch_blocks notion page_id = Inr blocks" and w: "list_all wf_block blocks"
  let ?texts = "concat (map text_contents
              (filter (\<lambda>b. block_type_of b \<in> JStr ` set text_block_types) blocks))"
  have r: "get_page_content_text notion page_id = Inr (strip (join '' '' ?texts))"
    using f content_text_wf [OF w] by (simp add: get_page_content_text_def ebind_simps)
  have "get_page_content_text notion page_id = Inr ''''" if "?texts = []"
    using r that by (simp add: strip_def)
  with r show ?thesis by blast
qed

theorem get_page_content_text_joins_witness:
  "fetch_blocks example_client (JStr ''77aa-00'')
     = Inr [example_heading_block, example_todo_block, example_mixed_block]
   \<and> list_all wf_block [example_heading_block, example_todo_block, example_mixed_block]
   \<and> get_page_content_text example_client (JStr ''77aa-00'') = Inr ''Plan  Meeting notes''
   \<and> fetch_blocks example_client (JStr ''0b-todo'') = Inr [bare_todo_block]
   \<and> list_all wf_block [bare_todo_block]
   \<and> get_page_content_text example_client (JStr ''0b-todo'') = Inr ''''"
proof -
  have f: "fetch_blocks example_client (JStr ''77aa-00'')
             = Inr [example_heading_block, example_todo_block, example_mixed_block]"
    by code_simp
  have w: "list_all wf_block [example_heading_block, example_todo_block, example_mixed_block]"
    by code_simp
  have e: "strip (join '' '' (concat (map text_contents
             (filter (\<lambda>b. block_type_of b \<in> JStr ` set text_block_types)
                [example_heading_block, example_todo_block, example_mixed_block]))))
           = ''Plan  Meeting notes''"
    by code_simp
  have r: "get_page_content_text example_client (JStr ''77aa-00'') = Inr ''Plan  Meeting notes''"
    using get_page_content_text_joins [OF f w, THEN conjunct1] e by simp
  have f': "fetch_blocks example_client (JStr ''0b-todo'') = Inr [bare_todo_block]"
    by code_simp
  have w': "list_all wf_block [bare_todo_block]"
    by code_simp
  have e': "concat (map text_contents
             (filter (\<lambda>b. block_type_of b \<in> JStr ` set text_block_types) [bare_todo_block]))
            = []"
    by code_simp
  have r': "get_page_content_text example_client (JStr ''0b-todo'') = Inr ''''"
    using get_page_content_text_joins [OF f' w', THEN conjunct2] e' by simp
  from f w r f' w' r' show ?thesis by simp
qed

subsection \<open>Emptiness check\<close>

lemma for_loop_find:
  "\<forall>x\<in>set xs. body x = Inr (if P x then Some r else None) \<Longrightarrow>
     for_loop body xs = Inr (if \<exists>x\<in>set xs. P x then Some r else None)"
  by (induction xs) simp_all

lemma span_nonblank_wf:
  assumes "wf_span span"
  shows "span_nonblank span =
           Inr (if is_text_span span \<and> strip (span_content span) \<noteq> [] then Some False else None)"
  using assms
proof (cases rule: wf_span_cases)
  case (1 s ty)
  then show ?thesis
    by (simp add: span_nonblank_def ebind_simps span_reads_other)
next
  case (2 s t c)
  then show ?thesis
    by (simp add: span_nonblank_def ebind_simps span_reads_text)
qed

lemma for_loop_span_nonblank:
  assumes "list_all wf_span spans"
  shows "for_loop span_nonblank spans =
           Inr (if \<exists>t\<in>set spans. is_text_span t \<and> strip (span_content t) \<noteq> []
                then Some False else None)"
proof (rule for_loop_find)
  show "\<forall>x\<in>set spans. span_nonblank x =
          Inr (if is_text_span x \<and> strip (span_content x) \<noteq> [] then Some False else None)"
    using assms by (simp add: list_all_iff span_nonblank_wf)
qed

lemma todo_not_visible:
  "JStr ty \<in> JStr ` set todo_block_types \<Longrightarrow> JStr ty \<notin> JStr ` set visible_block_types"
  by (auto simp: todo_block_types_def visible_block_types_def)

lemma block_check_wf:
  assumes "wf_block block"
  shows "block_check block =
           Inr (if (if has_rich_text block
                    then \<exists>c\<in>set (text_contents block). strip c \<noteq> []
                    else block_type_of block \<notin> JStr ` set todo_block_types
                         \<and> (block_type_of block \<in> JStr ` set visible_block_types
                              \<or> py_truthy (block_data_of block)))
                then Some False else None)"
  using assms
proof (cases rule: wf_block_cases)
  case (1 b ty data)
  note r = block_reads [OF 1(1,2,3)]
  from 1(4) r(2) have h: "\<not> has_rich_text block"
    by (simp add: has_rich_text_def)
  from 1(4) have c: "py_contains ''rich_text'' (JDict data) = Inr False"
    by simp
  show ?thesis
    unfolding block_check_def using h
    by (simp only: r c ebind_simps if_False if_True) (simp add: todo_not_visible)
next
  case (2 b ty data spans)
  note r = block_reads [OF 2(1,2,3)]
  from 2(4) r(2) have h: "has_rich_text block"
    by (simp add: has_rich_text_def)
  from 2(4) r(2) have t: "text_contents block = map span_content (filter is_text_span spans)"
    by (simp add: text_contents_def rich_text_of_def jfield_def)
  from 2(4) have c: "py_contains ''rich_text'' (JDict data) = Inr True"
    and g: "py_getitem (JDict data) (JStr ''rich_text'') = Inr (JList spans)"
    by simp_all
  have "block_check block = for_loop span_nonblank spans"
    unfolding block_check_def
    by (simp only: r c g ebind_simps if_True py_iter.simps)
  also have "\<dots> = Inr (if \<exists>t\<in>set spans. is_text_span t \<and> strip (span_content t) \<noteq> []
                        then Some False else None)"
    using 2(5) by (rule for_loop_span_nonblank)
  finally show ?thesis
    using h t by auto
qed

lemma empty_scan_wf:
  assumes "list_all wf_block blocks"
  shows "empty_scan blocks =
           Inr (\<forall>b\<in>set blocks.
                  if has_rich_text b
                  then \<forall>c\<in>set (text_contents b). strip c = []
                  else block_type_of b \<in> JStr ` set todo_block_types
                       \<or> (block_type_of b \<notin> JStr ` set visible_block_types
                           \<and> \<not> py_truthy (block_data_of b)))"
proof -
  let ?shows = "\<lambda>b. if has_rich_text b
                    then \<exists>c\<in>set (text_contents b). strip c \<noteq> []
                    else block_type_of b \<notin> JStr ` set todo_block_types
                         \<and> (block_type_of b \<in> JStr ` set visible_block_types
                              \<or> py_truthy (block_data_of b))"
  have "\<forall>b\<in>set blocks. block_check b = Inr (if ?shows b then Some False else None)"
    using assms by (simp add: list_all_iff block_check_wf)
  then have "for_loop block_check blocks = Inr (if \<exists>b\<in>set blocks. ?shows b then Some False else None)"
    by (rule for_loop_find)
  then have "empty_scan blocks = Inr (\<not> (\<exists>b\<in>set blocks. ?shows b))"
    by (simp add: empty_scan_def ebind_simps)
  also have "(\<not> (\<exists>b\<in>set blocks. ?shows b)) =
             (\<forall>b\<in>set blocks.
                  if has_rich_text b
                  then \<forall>c\<in>set (text_contents b). strip c = []
                  else block_type_of b \<in> JStr ` set todo_block_types
                       \<or> (block_type_of b \<notin> JStr ` set visible_block_types
                           \<and> \<not> py_truthy (block_data_of b)))"
    by auto
  finally show ?thesis .
qed

subsection \<open>The emptiness check without the duplicated branch\<close>

lemma for_loop_cong_set:
  "\<forall>x\<in>set xs. f x = g x \<Longrightarrow> for_loop f xs = for_loop g xs"
  by (induction xs) (simp_all split: sum.split option.split)

lemma block_check_collapsed_eq:
  assumes shield: "block_type_of block \<in> JStr ` set todo_block_types \<Longrightarrow>
                   py_truthy (block_data_of block) \<Longrightarrow> has_rich_text block"
  shows "block_check_collapsed block = block_check block"
proof (cases "\<exists>d. block = JDict d")
  case False
  then have "py_get block (JStr ''type'') JNull = Inl AttributeError"
    by (cases block) simp_all
  then show ?thesis
    by (simp add: block_check_def block_check_collapsed_def ebind_simps)
next
  case True
  then obtain d where d: "block = JDict d" by blast
  define bt where "bt = (case map_of d ''type'' of Some v \<Rightarrow> v | None \<Rightarrow> JNull)"
  have g1: "py_get block (JStr ''type'') JNull = Inr bt"
    by (simp add: d bt_def)
  have bto: "block_type_of block = bt"
    by (simp add: d bt_def block_type_of_def jfield_def)
  show ?thesis
  proof (cases "py_hashable bt")
    case False
    then have "py_get block bt (JDict []) = Inl TypeError"
      by (simp add: d)
    then show ?thesis
      by (simp add: block_check_def block_check_collapsed_def ebind_simps g1)
  next
    case hash: True
    define data where "data = (case dict_lookup d bt of Some v \<Rightarrow> v | None \<Rightarrow> JDict [])"
    have g2: "py_get block bt (JDict []) = Inr data"
      using hash by (simp add: d data_def)
    show ?thesis
    proof (cases "py_contains ''rich_text'' data")
      case (Inl e)
      then show ?thesis
        by (simp add: block_check_def block_check_collapsed_def ebind_simps g1 g2)
    next
      case (Inr has)
      show ?thesis
      proof (cases has)
        case True
        with Inr show ?thesis
          by (simp add: block_check_def block_check_collapsed_def ebind_simps g1 g2)
      next
        case nohas: False
        show ?thesis
        proof (cases "bt \<in> JStr ` set todo_block_types")
          case False
          with Inr nohas show ?thesis
            by (simp add: block_check_def block_check_collapsed_def ebind_simps g1 g2)
        next
          case todo: True
          then obtain ty where ty: "bt = JStr ty" by blast
          have nv: "bt \<notin> JStr ` set visible_block_types"
            using todo ty todo_not_visible by simp
          have bdo: "block_data_of block = (case map_of d ty of Some v \<Rightarrow> v | None \<Rightarrow> JNull)"
            using bto ty by (simp add: block_data_of_def jfield_def d)
          have dat: "data = (case map_of d ty of Some v \<Rightarrow> v | None \<Rightarrow> JDict [])"
            by (simp add: data_def ty)
          have falsy: "\<not> py_truthy data"
          proof
            assume tr: "py_truthy data"
            then obtain v where v: "map_of d ty = Some v"
              using dat by (cases "map_of d ty") simp_all
            with dat bdo have same: "block_data_of block = data" by simp
            with tr todo bto have "has_rich_text block"
              using shield by simp
            then obtain dd where "data = JDict dd" "map_of dd ''rich_text'' \<noteq> None"
              using same by (auto simp: has_rich_text_def split: json.splits)
            then have "py_contains ''rich_text'' data = Inr True" by simp
            with Inr nohas show False by simp
          qed
          have o: "block_check block = Inr None"
            using Inr nohas todo
            by (simp add: block_check_def ebind_simps g1 g2)
          have c: "block_check_collapsed block = Inr None"
            using Inr nohas nv falsy
            by (simp add: block_check_collapsed_def ebind_simps g1 g2)
          from o c show ?thesis by simp
        qed
      qed
    qed
  qed
qed

lemma empty_scan_collapsed_eq:
  assumes "\<forall>b\<in>set blocks. block_type_of b \<in> JStr ` set todo_block_types \<longrightarrow>
             py_truthy (block_data_of b) \<longrightarrow> has_rich_text b"
  shows "empty_scan_collapsed blocks = empty_scan blocks"
proof -
  have "\<forall>b\<in>set blocks. block_check_collapsed b = block_check b"
    using assms block_check_collapsed_eq by blast
  then have "for_loop block_check_collapsed blocks = for_loop block_check blocks"
    by (rule for_loop_cong_set)
  then show ?thesis
    by (simp add: empty_scan_collapsed_def empty_scan_def)
qed

subsection \<open>Text and emptiness of the same blocks\<close>

lemma strip_eq_Nil_iff: "strip s = [] \<longleftrightarrow> (\<forall>c\<in>set s. is_space c)"
proof
  assume "\<forall>c\<in>set s. is_space c"
  then have "dropWhile is_space s = []"
    unfolding dropWhile_eq_Nil_conv .
  then show "strip s = []"
    unfolding strip_def by (simp only: rev.simps dropWhile.simps)
next
  assume "strip s = []"
  then have "dropWhile is_space (rev (dropWhile is_space s)) = []"
    unfolding strip_def by (simp only: rev_is_Nil_conv)
  then have all: "\<forall>c\<in>set (dropWhile is_space s). is_space c"
    unfolding dropWhile_eq_Nil_conv by simp
  have "dropWhile is_space s = []"
  proof (rule ccontr)
    assume ne: "dropWhile is_space s \<noteq> []"
    then have "\<not> is_space (hd (dropWhile is_space s))"
      by (rule hd_dropWhile)
    moreover have "hd (dropWhile is_space s) \<in> set (dropWhile is_space s)"
      using ne by simp
    ultimately show False using all by blast
  qed
  then show "\<forall>c\<in>set s. is_space c"
    unfolding dropWhile_eq_Nil_conv .
qed

lemma set_join_subset: "set (join sep xs) \<subseteq> set sep \<union> (\<Union>x\<in>set xs. set x)"
  by (induction sep xs rule: join.induct) auto

lemma is_space_blank: "is_space CHR '' ''"
  by (simp add: is_space_def)

lemma strip_join_nonblank:
  assumes "strip (join '' '' xs) \<noteq> []"
  shows "\<exists>x\<in>set xs. strip x \<noteq> []"
proof (rule ccontr)
  assume "\<not> (\<exists>x\<in>set xs. strip x \<noteq> [])"
  then have blank: "\<forall>x\<in>set xs. \<forall>c\<in>set x. is_space c"
    by (simp add: strip_eq_Nil_iff)
  have "\<forall>c\<in>set (join '' '' xs). is_space c"
  proof
    fix c assume "c \<in> set (join '' '' xs)"
    then have "c \<in> set '' '' \<union> (\<Union>x\<in>set xs. set x)"
      using set_join_subset by blast
    then show "is_space c"
      using blank is_space_blank by auto
  qed
  then have "strip (join '' '' xs) = []"
    by (simp add: strip_eq_Nil_iff)
  with assms show False by simp
qed

lemma text_contents_has_rich_text:
  assumes "c \<in> set (text_contents block)"
  shows "has_rich_text block"
proof -
  from assms have ne: "rich_text_of block \<noteq> []"
    by (auto simp: text_contents_def)
  then obtain spans where j: "jfield ''rich_text'' (block_data_of block) = JList spans"
    by (cases "jfield ''rich_text'' (block_data_of block)") (simp_all add: rich_text_of_def)
  then obtain data where d: "block_data_of block = JDict data"
    by (cases "block_data_of block") (simp_all add: jfield_def)
  with j have "map_of data ''rich_text'' \<noteq> None"
    by (cases "map_of data ''rich_text''") (simp_all add: jfield_def)
  with d show ?thesis
    by (simp add: has_rich_text_def)
qed

lemma text_not_empty:
  assumes wf: "list_all wf_block blocks"
    and raw: "content_text blocks = Inr raw_text" and ne: "raw_text \<noteq> []"
  shows "empty_scan blocks = Inr False"
proof -
  let ?texts = "concat (map text_contents
              (filter (\<lambda>b. block_type_of b \<in> JStr ` set text_block_types) blocks))"
  from raw content_text_wf [OF wf] have "raw_text = strip (join '' '' ?texts)"
    by simp
  with ne obtain c where c: "c \<in> set ?texts" "strip c \<noteq> []"
    using strip_join_nonblank by blast
  from c(1) obtain b where b: "b \<in> set blocks" "c \<in> set (text_contents b)"
    by auto
  from b(2) have h: "has_rich_text b"
    by (rule text_contents_has_rich_text)
  have "\<not> (\<forall>b\<in>set blocks.
              if has_rich_text b
              then \<forall>c\<in>set (text_contents b). strip c = []
              else block_type_of b \<in> JStr ` set todo_block_types
                   \<or> (block_type_of b \<notin> JStr ` set visible_block_types
                       \<and> \<not> py_truthy (block_data_of b)))"
    using b c(2) h by auto
  then show ?thesis
    by (simp only: empty_scan_wf [OF wf])
qed

lemma page_text_not_empty:
  assumes "fetch_blocks notion page_id = Inr blocks" "list_all wf_block blocks"
    and "get_page_content_text notion page_id = Inr raw_text" "raw_text \<noteq> []"
  shows "is_empty notion page_id = Inr False"
proof -
  from assms(1,3) have "content_text blocks = Inr raw_text"
    by (simp add: get_page_content_text_def ebind_simps)
  with assms(2) have "empty_scan blocks = Inr False"
    using assms(4) by (rule text_not_empty)
  with assms(1) show ?thesis
    by (simp add: is_empty_def ebind_simps)
qed

lemma page_empty_no_text:
  assumes "fetch_blocks notion page_id = Inr blocks" "list_all wf_block blocks"
    and "is_empty notion page_id = Inr True"
  shows "get_page_content_text notion page_id = Inr []"
proof -
  from assms(1) content_text_wf [OF assms(2)]
  obtain raw_text where r: "get_page_content_text notion page_id = Inr raw_text"
    by (simp add: get_page_content_text_def ebind_simps)
  have "raw_text = []"
  proof (rule ccontr)
    assume "raw_text \<noteq> []"
    with assms(1,2) r have "is_empty notion page_id = Inr False"
      by (rule page_text_not_empty)
    with assms(3) show False by simp
  qed
  with r show ?thesis by simp
qed

subsection \<open>The emptiness check on the blocks the service returns\<close>

lemma no_rich_text_no_texts: "\<not> has_rich_text block \<Longrightarrow> text_contents block = []"
proof (rule ccontr)
  assume n: "\<not> has_rich_text block" and "text_contents block \<noteq> []"
  then obtain c where "c \<in> set (text_contents block)"
    by (cases "text_contents block") auto
  then have "has_rich_text block"
    by (rule text_contents_has_rich_text)
  with n show False by simp
qed

lemma service_block_pass:
  assumes "service_block b"
  shows "(if has_rich_text b
          then \<forall>c\<in>set (text_contents b). strip c = []
          else block_type_of b \<in> JStr ` set todo_block_types
               \<or> (block_type_of b \<notin> JStr ` set visible_block_types
                   \<and> \<not> py_truthy (block_data_of b)))
         = ((\<forall>c\<in>set (text_contents b). strip c = [])
            \<and> block_type_of b \<notin> JStr ` set visible_block_types
            \<and> (has_rich_text b \<or> \<not> py_truthy (block_data_of b)))"
proof (cases "has_rich_text b")
  case True
  with assms have "block_type_of b \<notin> JStr ` set visible_block_types"
    by (auto simp: service_block_def split: if_splits)
  with True show ?thesis by simp
next
  case False
  with assms have "block_type_of b \<notin> JStr ` set todo_block_types"
    by (auto simp: service_block_def split: if_splits)
  moreover from False have "text_contents b = []"
    by (rule no_rich_text_no_texts)
  ultimately show ?thesis
    using False by simp
qed

lemma empty_scan_service:
  assumes "list_all service_block blocks"
  shows "empty_scan blocks =
           Inr ((\<forall>b\<in>set blocks. \<forall>c\<in>set (text_contents b). strip c = [])
                \<and> (\<forall>b\<in>set blocks. block_type_of b \<notin> JStr ` set visible_block_types)
                \<and> (\<forall>b\<in>set blocks. has_rich_text b \<or> \<not> py_truthy (block_data_of b)))"
proof -
  from assms have wf: "list_all wf_block blocks"
    by (simp add: list_all_iff service_block_def)
  have "(\<forall>b\<in>set blocks.
           if has_rich_text b
           then \<forall>c\<in>set (text_contents b). strip c = []
           else block_type_of b \<in> JStr ` set todo_block_types
                \<or> (block_type_of b \<notin> JStr ` set visible_block_types
                    \<and> \<not> py_truthy (block_data_of b)))
        = (\<forall>b\<in>set blocks.
             (\<forall>c\<in>set (text_contents b). strip c = [])
             \<and> block_type_of b \<notin> JStr ` set visible_block_types
             \<and> (has_rich_text b \<or> \<not> py_truthy (block_data_of b)))"
    using assms by (simp add: list_all_iff service_block_pass cong: ball_cong)
  also have "\<dots> = ((\<forall>b\<in>set blocks. \<forall>c\<in>set (text_contents b). strip c = [])
                \<and> (\<forall>b\<in>set blocks. block_type_of b \<notin> JStr ` set visible_block_types)
                \<and> (\<forall>b\<in>set blocks. has_rich_text b \<or> \<not> py_truthy (block_data_of b)))"
    by blast
  finally show ?thesis
    by (simp only: empty_scan_wf [OF wf])
qed

text \<open>
  C2. For a page whose fetched top-level blocks are blocks of the service, \<open>is_empty\<close>
  returns, and it answers \<^verbatim>\<open>True\<close> if and only if no block carries non-blank content in
  a "text"-variant span, no block's type is in the always-visible list, and no block
  carries other non-empty type-specific data (data that is not a rich-text list). In
  particular a block without rich text whose data is non-empty makes the page not empty
  (the catch-all), and a page whose blocks hold only empty-string text spans, no
  always-visible type and no such data is empty.
\<close>

theorem is_empty_iff:
  "fetch_blocks notion page_id = Inr blocks \<Longrightarrow> list_all service_block blocks \<Longrightarrow>
     is_empty notion page_id =
       Inr ((\<forall>b\<in>set blocks. \<forall>c\<in>set (text_contents b). strip c = [])
            \<and> (\<forall>b\<in>set blocks. block_type_of b \<notin> JStr ` set visible_block_types)
            \<and> (\<forall>b\<in>set blocks. has_rich_text b \<or> \<not> py_truthy (block_data_of b)))
     \<and> ((\<exists>b\<in>set blocks. \<not> has_rich_text b \<and> py_truthy (block_data_of b))
          \<longrightarrow> is_empty notion page_id = Inr False)
     \<and> ((\<forall>b\<in>set blocks. \<forall>c\<in>set (text_contents b). c = [])
          \<and> (\<forall>b\<in>set blocks. block_type_of b \<notin> JStr ` set visible_block_types)
          \<and> (\<forall>b\<in>set blocks. has_rich_text b \<or> \<not> py_truthy (block_data_of b))
          \<longrightarrow> is_empty notion page_id = Inr True)"
proof -
  assume f: "fetch_blocks notion page_id = Inr blocks" and s: "list_all service_block blocks"
  let ?no_text = "\<forall>b\<in>set blocks. \<forall>c\<in>set (text_contents b). strip c = []"
  let ?no_visible = "\<forall>b\<in>set blocks. block_type_of b \<notin> JStr ` set visible_block_types"
  let ?no_data = "\<forall>b\<in>set blocks. has_rich_text b \<or> \<not> py_truthy (block_data_of b)"
  have r: "is_empty notion page_id = Inr (?no_text \<and> ?no_visible \<and> ?no_data)"
    using f empty_scan_service [OF s] by (simp add: is_empty_def ebind_simps)
  have c: "is_empty notion page_id = Inr False"
    if "\<exists>b\<in>set blocks. \<not> has_rich_text b \<and> py_truthy (block_data_of b)"
  proof -
    from that have "\<not> ?no_data" by blast
    with r show ?thesis by simp
  qed
  have e: "is_empty notion page_id = Inr True"
    if "(\<forall>b\<in>set blocks. \<forall>c\<in>set (text_contents b). c = []) \<and> ?no_visible \<and> ?no_data"
  proof -
    have "strip [] = []" by (simp add: strip_def)
    with that have "?no_text" by auto
    with that r show ?thesis by simp
  qed
  from r c e show ?thesis by blast
qed

theorem is_empty_iff_witness:
  "fetch_blocks example_client (JStr ''0c-plain'')
     = Inr [example_blank_block, example_blank_todo_block, example_divider_block]
   \<and> list_all service_block [example_blank_block, example_blank_todo_block, example_divider_block]
   \<and> is_empty example_client (JStr ''0c-plain'') = Inr True
   \<and> fetch_blocks example_client (JStr ''0d-image'')
       = Inr [example_blank_block, example_image_block]
   \<and> list_all service_block [example_blank_block, example_image_block]
   \<and> is_empty example_client (JStr ''0d-image'') = Inr False
   \<and> fetch_blocks example_client (JStr ''0e-sub'')
       = Inr [example_blank_todo_block, example_child_page_block]
   \<and> list_all service_block [example_blank_todo_block, example_child_page_block]
   \<and> is_empty example_client (JStr ''0e-sub'') = Inr False
   \<and> fetch_blocks example_client (JStr ''0f-todo'')
       = Inr [example_blank_block, example_todo_block]
   \<and> list_all service_block [example_blank_block, example_todo_block]
   \<and> is_empty example_client (JStr ''0f-todo'') = Inr False"
proof -
  text \<open>Blank paragraph, to-do item without text, divider: every test passes.\<close>
  have f1: "fetch_blocks example_client (JStr ''0c-plain'')
     = Inr [example_blank_block, example_blank_todo_block, example_divider_block]"
    by code_simp
  have s1: "list_all service_block
              [example_blank_block, example_blank_todo_block, example_divider_block]"
    by code_simp
  have e1: "((\<forall>b\<in>set [example_blank_block, example_blank_todo_block, example_divider_block].
                \<forall>c\<in>set (text_contents b). c = [])
             \<and> (\<forall>b\<in>set [example_blank_block, example_blank_todo_block, example_divider_block].
                  block_type_of b \<notin> JStr ` set visible_block_types)
             \<and> (\<forall>b\<in>set [example_blank_block, example_blank_todo_block, example_divider_block].
                  has_rich_text b \<or> \<not> py_truthy (block_data_of b)))"
    by code_simp
  have r1: "is_empty example_client (JStr ''0c-plain'') = Inr True"
    using is_empty_iff [OF f1 s1, THEN conjunct2, THEN conjunct2] e1 by blast
  text \<open>An image after a blank paragraph: the always-visible test decides.\<close>
  have f2: "fetch_blocks example_client (JStr ''0d-image'')
       = Inr [example_blank_block, example_image_block]"
    by code_simp
  have s2: "list_all service_block [example_blank_block, example_image_block]"
    by code_simp
  have e2: "((\<forall>b\<in>set [example_blank_block, example_image_block].
                \<forall>c\<in>set (text_contents b). strip c = [])
             \<and> (\<forall>b\<in>set [example_blank_block, example_image_block].
                  block_type_of b \<notin> JStr ` set visible_block_types)
             \<and> (\<forall>b\<in>set [example_blank_block, example_image_block].
                  has_rich_text b \<or> \<not> py_truthy (block_data_of b))) = False"
    by code_simp
  have r2: "is_empty example_client (JStr ''0d-image'') = Inr False"
    using is_empty_iff [OF f2 s2, THEN conjunct1] e2 by simp
  text \<open>A sub-page after a to-do item without text: the catch-all decides.\<close>
  have f3: "fetch_blocks example_client (JStr ''0e-sub'')
       = Inr [example_blank_todo_block, example_child_page_block]"
    by code_simp
  have s3: "list_all service_block [example_blank_todo_block, example_child_page_block]"
    by code_simp
  have e3: "\<exists>b\<in>set [example_blank_todo_block, example_child_page_block].
              \<not> has_rich_text b \<and> py_truthy (block_data_of b)"
    by code_simp
  have r3: "is_empty example_client (JStr ''0e-sub'') = Inr False"
    using is_empty_iff [OF f3 s3, THEN conjunct2, THEN conjunct1] e3 by blast
  text \<open>A to-do item with text: the rich-text scan decides.\<close>
  have f4: "fetch_blocks example_client (JStr ''0f-todo'')
       = Inr [example_blank_block, example_todo_block]"
    by code_simp
  have s4: "list_all service_block [example_blank_block, example_todo_block]"
    by code_simp
  have e4: "((\<forall>b\<in>set [example_blank_block, example_todo_block].
                \<forall>c\<in>set (text_contents b). strip c = [])
             \<and> (\<forall>b\<in>set [example_blank_block, example_todo_block].
                  block_type_of b \<notin> JStr ` set visible_block_types)
             \<and> (\<forall>b\<in>set [example_blank_block, example_todo_block].
                  has_rich_text b \<or> \<not> py_truthy (block_data_of b))) = False"
    by code_simp
  have r4: "is_empty example_client (JStr ''0f-todo'') = Inr False"
    using is_empty_iff [OF f4 s4, THEN conjunct1] e4 by simp
  from f1 s1 r1 f2 s2 r2 f3 s3 r3 f4 s4 r4 show ?thesis
    by (intro conjI)
qed

lemma service_block_shield:
  assumes "list_all service_block blocks"
  shows "\<forall>b\<in>set blocks. block_type_of b \<in> JStr ` set todo_block_types \<longrightarrow>
           py_truthy (block_data_of b) \<longrightarrow> has_rich_text b"
  using assms by (auto simp: list_all_iff service_block_def split: if_splits)

text \<open>
  C4. On every list of blocks of the service, the emptiness check with the duplicated
  to_do/callout/toggle/quote/code branch removed (those types then go through the generic
  rich-text scan, the always-visible test and the catch-all) gives the result of
  \<open>is_empty\<close>: a block of these types always carries rich text, so the first branch takes
  it and the second is never reached.
\<close>

theorem is_empty_collapsed_eq:
  "fetch_blocks notion page_id = Inr blocks \<Longrightarrow> list_all service_block blocks \<Longrightarrow>
     is_empty_collapsed notion page_id = is_empty notion page_id"
proof -
  assume f: "fetch_blocks notion page_id = Inr blocks" and s: "list_all service_block blocks"
  have "empty_scan_collapsed blocks = empty_scan blocks"
    using service_block_shield [OF s] by (rule empty_scan_collapsed_eq)
  with f show ?thesis
    by (simp add: is_empty_collapsed_def is_empty_def ebind_simps)
qed

theorem is_empty_collapsed_eq_witness:
  "fetch_blocks example_client (JStr ''0f-todo'')
     = Inr [example_blank_block, example_todo_block]
   \<and> list_all service_block [example_blank_block, example_todo_block]
   \<and> is_empty example_client (JStr ''0f-todo'') = Inr False
   \<and> is_empty_collapsed example_client (JStr ''0f-todo'') = Inr False
   \<and> fetch_blocks example_client (JStr ''0e-sub'')
       = Inr [example_blank_todo_block, example_child_page_block]
   \<and> list_all service_block [example_blank_todo_block, example_child_page_block]
   \<and> is_empty example_client (JStr ''0e-sub'') = Inr False
   \<and> is_empty_collapsed example_client (JStr ''0e-sub'') = Inr False
   \<and> fetch_blocks example_client (JStr ''0c-plain'')
       = Inr [example_blank_block, example_blank_todo_block, example_divider_block]
   \<and> list_all service_block [example_blank_block, example_blank_todo_block, example_divider_block]
   \<and> is_empty example_client (JStr ''0c-plain'') = Inr True
   \<and> is_empty_collapsed example_client (JStr ''0c-plain'') = Inr True"
proof -
  text \<open>The to-do item with text decides.\<close>
  have f1: "fetch_blocks example_client (JStr ''0f-todo'')
     = Inr [example_blank_block, example_todo_block]"
    by code_simp
  have s1: "list_all service_block [example_blank_block, example_todo_block]"
    by code_simp
  have e1: "is_empty example_client (JStr ''0f-todo'') = Inr False"
    by code_simp
  have c1: "is_empty_collapsed example_client (JStr ''0f-todo'') = Inr False"
    using is_empty_collapsed_eq [OF f1 s1] e1 by simp
  text \<open>The to-do item without text is passed, the sub-page decides.\<close>
  have f2: "fetch_blocks example_client (JStr ''0e-sub'')
       = Inr [example_blank_todo_block, example_child_page_block]"
    by code_simp
  have s2: "list_all service_block [example_blank_todo_block, example_child_page_block]"
    by code_simp
  have e2: "is_empty example_client (JStr ''0e-sub'') = Inr False"
    by code_simp
  have c2: "is_empty_collapsed example_client (JStr ''0e-sub'') = Inr False"
    using is_empty_collapsed_eq [OF f2 s2] e2 by simp
  text \<open>The to-do item without text is passed, and so is every other block.\<close>
  have f3: "fetch_blocks example_client (JStr ''0c-plain'')
       = Inr [example_blank_block, example_blank_todo_block, example_divider_block]"
    by code_simp
  have s3: "list_all service_block
              [example_blank_block, example_blank_todo_block, example_divider_block]"
    by code_simp
  have e3: "is_empty example_client (JStr ''0c-plain'') = Inr True"
    by code_simp
  have c3: "is_empty_collapsed example_client (JStr ''0c-plain'') = Inr True"
    using is_empty_collapsed_eq [OF f3 s3] e3 by simp
  from f1 s1 e1 c1 f2 s2 e2 c2 f3 s3 e3 c3 show ?thesis
    by (intro conjI)
qed

subsection \<open>Outside the service's schema\<close>

text \<open>
  Both results need the schema. The checks form one chain of alternatives, so a block with
  a \<open>rich_text\<close> entry is judged by its text alone, and the duplicated branch keeps a
  to-do-like block without such an entry from the catch-all. On an image with a
  \<open>rich_text\<close> entry the page counts as empty; on a to-do item without one, \<open>is_empty\<close>
  and the check without the branch differ. The service produces neither block.
\<close>

lemma is_empty_image_with_rich_text:
  "fetch_blocks example_client (JStr ''0a-img'') = Inr [odd_image_block]
   \<and> \<not> service_block odd_image_block
   \<and> is_empty example_client (JStr ''0a-img'') = Inr True"
  by code_simp

lemma is_empty_collapsed_todo_without_rich_text:
  "fetch_blocks example_client (JStr ''0b-todo'') = Inr [bare_todo_block]
   \<and> \<not> service_block bare_todo_block
   \<and> is_empty example_client (JStr ''0b-todo'') = Inr True
   \<and> is_empty_collapsed example_client (JStr ''0b-todo'') = Inr False"
  by code_simp

subsection \<open>Action dispatch\<close>

lemma io_bind_pure:
  "io_bind (io_pure (Inr x)) f w = f x w"
  "io_bind (io_pure (Inl e)) f w = (Inl e, w)"
  "io_bind (io_return x) f w = f x w"
  by (simp_all add: io_bind_def io_pure_def io_return_def)

lemma io_bind_emit:
  "io_bind (emit ev) f w = f () (w\<lparr>trace := trace w @ [ev]\<rparr>)"
  by (simp add: io_bind_def emit_def)

lemma delete_branch_declined:
  assumes "stdin w = line # rest" "lower (strip line) \<noteq> ''yes''"
  shows "delete_branch notion idx (JStr pid) w =
           (Inr (), w\<lparr>stdin := rest,
                      trace := trace w @
                        [Print (EmptyNotice idx
                           (''https://www.notion.so/'' @ filter (\<lambda>c. c \<noteq> CHR ''-'') pid)),
                         Prompt ''Delete this empty page? (yes/no): '']\<rparr>)"
  using assms
  by (simp add: delete_branch_def io_bind_def io_pure_def io_return_def emit_def
      py_input_def Let_def)

text \<open>
  C9. A page whose blocks follow the schema and which \<open>is_empty\<close> classifies as empty,
  processed while \<open>confirm_delete\<close> is set, with an answer other than "yes" to the
  prompt: the page's processing shows the notice and the deletion prompt, reads the answer
  and ends normally. No suggestion request, no delete call, no title prompt and no update
  call is made, and the loop goes on with the next page.
\<close>

theorem declined_deletion_continues:
  assumes "py_getitem page (JStr ''id'') = Inr (JStr pid)"
    and "ebind (py_getitem page (JStr ''last_edited_time'')) py_prefix10 = Inr last_edited"
    and "fetch_blocks notion (JStr pid) = Inr blocks"
    and "list_all wf_block blocks"
    and "is_empty notion (JStr pid) = Inr True"
    and "confirm_delete a"
    and "stdin w = line # rest"
    and "lower (strip line) \<noteq> ''yes''"
  shows "process_page notion post a idx page w =
           (Inr (), w\<lparr>stdin := rest,
                      trace := trace w @
                        [Print (EmptyNotice idx
                           (''https://www.notion.so/'' @ filter (\<lambda>c. c \<noteq> CHR ''-'') pid)),
                         Prompt ''Delete this empty page? (yes/no): '']\<rparr>)
         \<and> run_pages notion post a idx (page # pages) w =
             run_pages notion post a (Suc idx) pages
               (w\<lparr>stdin := rest,
                   trace := trace w @
                     [Print (EmptyNotice idx
                        (''https://www.notion.so/'' @ filter (\<lambda>c. c \<noteq> CHR ''-'') pid)),
                      Prompt ''Delete this empty page? (yes/no): '']\<rparr>)"
proof -
  have t: "get_page_content_text notion (JStr pid) = Inr []"
    using assms(3,4,5) by (rule page_empty_no_text)
  have d: "dispatch notion a idx (JStr pid) ''[No content]'' True =
           delete_branch notion idx (JStr pid)"
    using assms(6) by (simp add: dispatch_def)
  have p: "process_page notion post a idx page w = delete_branch notion idx (JStr pid) w"
    unfolding process_page_def
    by (simp only: assms(1,2,5) t d io_bind_pure format_notion_url.simps
        not_False_eq_True if_False simp_thms)
  have r: "process_page notion post a idx page w =
           (Inr (), w\<lparr>stdin := rest,
                      trace := trace w @
                        [Print (EmptyNotice idx
                           (''https://www.notion.so/'' @ filter (\<lambda>c. c \<noteq> CHR ''-'') pid)),
                         Prompt ''Delete this empty page? (yes/no): '']\<rparr>)"
    using p delete_branch_declined [OF assms(7,8)] by simp
  then show ?thesis
    by (simp add: io_bind_def)
qed

theorem declined_deletion_continues_witness:
  "py_getitem example_blank_page (JStr ''id'') = Inr (JStr ''9b-42'')
   \<and> fetch_blocks example_client (JStr ''9b-42'') = Inr [example_blank_block]
   \<and> list_all wf_block [example_blank_block]
   \<and> is_empty example_client (JStr ''9b-42'') = Inr True
   \<and> lower (strip '' No '') \<noteq> ''yes''
   \<and> process_page example_client example_endpoint
         \<lparr>auto_apply = False, confirm_delete = True\<rparr> 1 example_blank_page
         \<lparr>stdin = ['' No '', ''yes''], trace = []\<rparr>
       = (Inr (),
          \<lparr>stdin = [''yes''],
           trace = [Print (EmptyNotice 1 ''https://www.notion.so/9b42''),
                    Prompt ''Delete this empty page? (yes/no): '']\<rparr>)"
proof -
  have h1: "py_getitem example_blank_page (JStr ''id'') = Inr (JStr ''9b-42'')"
    by code_simp
  have h2: "ebind (py_getitem example_blank_page (JStr ''last_edited_time'')) py_prefix10
            = Inr (JStr ''2024-05-03'')"
    by code_simp
  have h3: "fetch_blocks example_client (JStr ''9b-42'') = Inr [example_blank_block]"
    by code_simp
  have h4: "list_all wf_block [example_blank_block]"
    by code_simp
  have h5: "is_empty example_client (JStr ''9b-42'') = Inr True"
    by code_simp
  have h6: "confirm_delete \<lparr>auto_apply = False, confirm_delete = True\<rparr>"
    by simp
  have h7: "stdin \<lparr>stdin = ['' No '', ''yes''], trace = []\<rparr> = '' No '' # [''yes'']"
    by simp
  have h8: "lower (strip '' No '') \<noteq> ''yes''"
    by code_simp
  have "process_page example_client example_endpoint
         \<lparr>auto_apply = False, confirm_delete = True\<rparr> 1 example_blank_page
         \<lparr>stdin = ['' No '', ''yes''], trace = []\<rparr>
       = (Inr (),
          \<lparr>stdin = [''yes''],
           trace = [Print (EmptyNotice 1 ''https://www.notion.so/9b42''),
                    Prompt ''Delete this empty page? (yes/no): '']\<rparr>)"
    using declined_deletion_continues [OF h1 h2 h3 h4 h5 h6 h7 h8, THEN conjunct1,
        of example_endpoint 1]
    by simp
  with h1 h3 h4 h5 h8 show ?thesis by simp
qed

lemma io_bind_result: "m w = (Inr x, w') \<Longrightarrow> io_bind m f w = f x w'"
  by (simp add: io_bind_def)

lemma title_branch_auto_apply:
  assumes "auto_apply a" "s \<noteq> []"
  shows "title_branch notion a idx (JStr pid) s w =
           (case pages_update notion (JStr pid) (title_properties s) of
              Inl e \<Rightarrow>
                (Inl e,
                 w\<lparr>trace := trace w @
                      [Print (SuggestionNotice idx s),
                       Print (OpenNotice
                         (''https://www.notion.so/'' @ filter (\<lambda>c. c \<noteq> CHR ''-'') pid)),
                       UpdateCall (JStr pid) (title_properties s)]\<rparr>)
            | Inr r \<Rightarrow>
                (Inr (),
                 w\<lparr>trace := trace w @
                      [Print (SuggestionNotice idx s),
                       Print (OpenNotice
                         (''https://www.notion.so/'' @ filter (\<lambda>c. c \<noteq> CHR ''-'') pid)),
                       UpdateCall (JStr pid) (title_properties s),
                       Print TitleApplied]\<rparr>))"
  using assms
  by (simp add: title_branch_def call_update_def io_bind_def io_pure_def io_return_def
      emit_def split: sum.split)

text \<open>
  C10, as the code has it. A page whose blocks follow the schema and whose extracted text
  is not empty, processed with \<open>auto_apply\<close> set, when the request to the endpoint
  returns a response: one request is made, with the extracted text, and no deletion
  notice or prompt is shown. If the suggestion (the stripped \<open>response\<close> field, or the
  sentinel) is not empty, the notices follow and one update call, carrying the suggestion
  as the title property, after which the page ends as the call ends. If the suggestion is
  the empty string, nothing follows the request: no update call is made.
\<close>

theorem auto_apply_updates_title:
  assumes "py_getitem page (JStr ''id'') = Inr (JStr pid)"
    and "ebind (py_getitem page (JStr ''last_edited_time'')) py_prefix10 = Inr last_edited"
    and "fetch_blocks notion (JStr pid) = Inr blocks"
    and "list_all wf_block blocks"
    and "get_page_content_text notion (JStr pid) = Inr raw_text"
    and "raw_text \<noteq> []"
    and "auto_apply a"
    and "post default_model raw_text = Inr response"
    and "suggestion_of_response response = Inr s"
  shows "process_page notion post a idx page w =
           (if s = []
            then (Inr (), w\<lparr>trace := trace w @ [HttpPost default_model raw_text]\<rparr>)
            else
              (case pages_update notion (JStr pid) (title_properties s) of
                 Inl e \<Rightarrow>
                   (Inl e,
                    w\<lparr>trace := trace w @
                         [HttpPost default_model raw_text,
                          Print (SuggestionNotice idx s),
                          Print (OpenNotice
                            (''https://www.notion.so/'' @ filter (\<lambda>c. c \<noteq> CHR ''-'') pid)),
                          UpdateCall (JStr pid) (title_properties s)]\<rparr>)
               | Inr r \<Rightarrow>
                   (Inr (),
                    w\<lparr>trace := trace w @
                         [HttpPost default_model raw_text,
                          Print (SuggestionNotice idx s),
                          Print (OpenNotice
                            (''https://www.notion.so/'' @ filter (\<lambda>c. c \<noteq> CHR ''-'') pid)),
                          UpdateCall (JStr pid) (title_properties s),
                          Print TitleApplied]\<rparr>)))"
proof -
  let ?w = "w\<lparr>trace := trace w @ [HttpPost default_model raw_text]\<rparr>"
  have e: "is_empty notion (JStr pid) = Inr False"
    using assms(3,4,5,6) by (rule page_text_not_empty)
  have g: "suggest_title_llm post raw_text w = (Inr s, ?w)"
    using suggest_title_llm_returns [of post raw_text response w] assms(8,9) by simp
  have d: "dispatch notion a idx (JStr pid) s False = title_branch notion a idx (JStr pid) s"
    by (simp add: dispatch_def)
  have "process_page notion post a idx page w =
          io_bind (suggest_title_llm post raw_text)
            (\<lambda>suggested_title.
               io_bind (io_pure (is_empty notion (JStr pid)))
                 (\<lambda>empty_page. dispatch notion a idx (JStr pid) suggested_title empty_page)) w"
    unfolding process_page_def
    by (simp add: assms(1,2,5,6) io_bind_pure)
  also have "\<dots> = io_bind (io_pure (is_empty notion (JStr pid)))
                    (\<lambda>empty_page. dispatch notion a idx (JStr pid) s empty_page) ?w"
    using g by (rule io_bind_result)
  also have "\<dots> = title_branch notion a idx (JStr pid) s ?w"
    by (simp add: e d io_bind_pure)
  finally have p: "process_page notion post a idx page w =
                   title_branch notion a idx (JStr pid) s ?w" .
  show ?thesis
  proof (cases "s = []")
    case True
    then show ?thesis
      using p by (simp add: title_branch_def io_return_def)
  next
    case False
    then show ?thesis
      using p title_branch_auto_apply [OF assms(7) False, of notion idx pid ?w]
      by (simp split: sum.split)
  qed
qed

theorem auto_apply_updates_title_witness:
  "fetch_blocks example_client (JStr ''1f2e-3d4c'') = Inr [example_text_block]
   \<and> list_all wf_block [example_text_block]
   \<and> get_page_content_text example_client (JStr ''1f2e-3d4c'') = Inr ''Meeting notes''
   \<and> process_page example_client example_endpoint
         \<lparr>auto_apply = True, confirm_delete = True\<rparr> 1 example_page
         \<lparr>stdin = [], trace = []\<rparr>
       = (Inr (),
          \<lparr>stdin = [],
           trace = [HttpPost ''gemma:2b-instruct'' ''Meeting notes'',
                    Print (SuggestionNotice 1 ''Weekly meeting notes''),
                    Print (OpenNotice ''https://www.notion.so/1f2e3d4c''),
                    UpdateCall (JStr ''1f2e-3d4c'') (title_properties ''Weekly meeting notes''),
                    Print TitleApplied]\<rparr>)"
proof -
  have h1: "py_getitem example_page (JStr ''id'') = Inr (JStr ''1f2e-3d4c'')"
    by code_simp
  have h2: "ebind (py_getitem example_page (JStr ''last_edited_time'')) py_prefix10
            = Inr (JStr ''2024-05-01'')"
    by code_simp
  have h3: "fetch_blocks example_client (JStr ''1f2e-3d4c'') = Inr [example_text_block]"
    by code_simp
  have h4: "list_all wf_block [example_text_block]"
    by code_simp
  have h5: "get_page_content_text example_client (JStr ''1f2e-3d4c'') = Inr ''Meeting notes''"
    by code_simp
  have h6: "''Meeting notes'' \<noteq> []"
    by simp
  have h7: "auto_apply \<lparr>auto_apply = True, confirm_delete = True\<rparr>"
    by simp
  have h8: "example_endpoint default_model ''Meeting notes''
            = Inr (Inr (JDict [(''response'', JStr '' Weekly meeting notes ''),
                               (''done'', JBool True)]))"
    by (simp add: example_endpoint_def)
  have h9: "suggestion_of_response
              (Inr (JDict [(''response'', JStr '' Weekly meeting notes ''),
                           (''done'', JBool True)]))
            = Inr ''Weekly meeting notes''"
    by code_simp
  have u: "pages_update example_client (JStr ''1f2e-3d4c'')
             (title_properties ''Weekly meeting notes'') = Inr (JDict [])"
    by (simp add: example_client_def)
  have m: "default_model = ''gemma:2b-instruct''"
    by (simp add: default_model_def)
  have "process_page example_client example_endpoint
         \<lparr>auto_apply = True, confirm_delete = True\<rparr> 1 example_page
         \<lparr>stdin = [], trace = []\<rparr>
       = (Inr (),
          \<lparr>stdin = [],
           trace = [HttpPost ''gemma:2b-instruct'' ''Meeting notes'',
                    Print (SuggestionNotice 1 ''Weekly meeting notes''),
                    Print (OpenNotice ''https://www.notion.so/1f2e3d4c''),
                    UpdateCall (JStr ''1f2e-3d4c'') (title_properties ''Weekly meeting notes''),
                    Print TitleApplied]\<rparr>)"
    using auto_apply_updates_title [where post = example_endpoint and idx = 1
          and w = "\<lparr>stdin = [], trace = []\<rparr>",
        OF h1 h2 h3 h4 h5 h6 h7 h8 h9] u m
    by simp
  with h3 h4 h5 show ?thesis by simp
qed

text \<open>
  C10 as the specification states it (one update call for every such page) fails when the
  model answers with nothing but white space: the suggestion is the empty string, the guard \<^verbatim>\<open>if suggested_title:\<close> fails, and the page
  ends after the request without any update call.
\<close>

theorem auto_apply_blank_suggestion_counterexample:
  "get_page_content_text example_client (JStr ''1f2e-3d4c'') = Inr ''Meeting notes''
   \<and> process_page example_client blank_endpoint
         \<lparr>auto_apply = True, confirm_delete = True\<rparr> 1 example_page
         \<lparr>stdin = [], trace = []\<rparr>
       = (Inr (),
          \<lparr>stdin = [], trace = [HttpPost ''gemma:2b-instruct'' ''Meeting notes'']\<rparr>)"
  by code_simp

end
